theory Spec2Isabelle
  imports Complex_Main "HOL-Library.Code_Target_Nat"
begin

section \<open>Mistake records and the review scheduler (src/models/MistakeBook.js)\<close>

text \<open>
  A mistake record is a Mongoose document. Its schema is the record \<open>mistake\<close> below, with the
  nested paths \<open>reviewInfo\<close>, \<open>errorStats\<close> and \<open>metadata\<close> as records of their own.
  ObjectIds are natural numbers, dates are milliseconds since the epoch, and a JavaScript
  \<open>Date\<close> that may hold NaN is a \<open>jsdate\<close>. Schema paths of type Number that the code does
  arithmetic on are integers. The question snapshot and the user's answer are opaque payloads
  (strings); \<open>createdAt\<close> is never read or written by the functions embedded here and is left out.

  \<open>doc.save()\<close> validates the document, runs the schema's \<open>pre('save')\<close> hook and writes
  the document to the collection; when a validator fails it rejects before the hook and
  writes nothing, and the two functions that call it here rethrow the error. The documents
  of the collection were written by \<open>save()\<close> and have passed the validators. Two values
  can still fail them: an invalid \<open>Date\<close> that \<open>recordReview\<close> assigns to
  \<open>reviewInfo.nextReviewDate\<close>, which does not cast, and \<open>importance\<close> (min 1, max 5),
  which \<open>createMistakeRecord\<close> takes from its caller. These two checks are part of the
  embedding, each in the function that assigns the value; \<open>save\<close> below is the hook and the
  write. Casting of strings (\<open>trim\<close>) and the \<open>timestamps\<close> option are left out.
\<close>

type_synonym objectId = nat
type_synonym millis = int

datatype jsdate = ValidDate millis | InvalidDate

datatype review_status = Unreviewed | Reviewing | Mastered

datatype source_kind = Exam | Practice | Review

record review_info =
  reviewCount :: int
  lastReviewDate :: "millis option"
  nextReviewDate :: jsdate
  reviewIntervals :: "int list"
  consecutiveCorrect :: int

record error_stats =
  totalAttempts :: int
  correctAttempts :: int
  errorRate :: int

record meta_data =
  isArchived :: bool
  archiveDate :: "millis option"
  isPublic :: bool
  viewCount :: int

record mistake =
  doc_id :: objectId
  user :: objectId
  question :: objectId
  questionSnapshot :: string
  userAnswer :: string
  mistakeReason :: string
  tags :: "string list"
  importance :: int
  masteryLevel :: int
  reviewStatus :: review_status
  reviewInfo :: review_info
  errorStats :: error_stats
  source :: source_kind
  examRecord :: "objectId option"
  updatedAt :: millis
  metadata :: meta_data

subsection \<open>Numbers\<close>

text \<open>
  A JavaScript number is an IEEE 754 double. The counters and levels of the schema are
  integers far below \<open>2^53\<close> and are exact, so they are integers here. A quotient or a
  product need not be a double: the machine returns the nearest double, a tie going to the
  even mantissa. \<open>to_double\<close> is that rounding on the rationals, for the normal range of
  exponents: \<open>binade x\<close> is the exponent \<open>e\<close> with \<open>2^e \<le> x < 2^(e+1)\<close>, and the 53 bit
  mantissa is \<open>x / 2^(e-52)\<close> rounded to an integer.

  \<open>Math.round\<close> is exact on its argument: the nearest integer, a half rounded towards
  plus infinity. \<open>percent a b\<close> is \<open>Math.round((a / b) * 100)\<close>, which the two hooks
  compute in three places; 23 of 40 give 57 (the double product is just below 57.5).
\<close>

definition round_half_even :: "rat \<Rightarrow> int" where
  "round_half_even x =
     (let f = \<lfloor>x\<rfloor>; r = x - of_int f
      in if r < 1 / 2 then f else if 1 / 2 < r then f + 1 else if even f then f else f + 1)"

function binade :: "rat \<Rightarrow> int" where
  "binade x =
     (if x \<le> 0 then 0
      else if 2 \<le> x then binade (x / 2) + 1
      else if x < 1 then binade (x * 2) - 1
      else 0)"
  by pat_completeness auto
termination
proof (relation "measure (\<lambda>x. nat (2 * \<lceil>1 / x\<rceil> + \<lfloor>x\<rfloor>))")
  show "wf (measure (\<lambda>x. nat (2 * \<lceil>1 / x\<rceil> + \<lfloor>x\<rfloor>)))" by simp
next
  fix x :: rat assume pos: "\<not> x \<le> 0" and big: "2 \<le> x"
  have halving: "\<And>a b :: int. a < b \<Longrightarrow> 2 \<le> b \<Longrightarrow> nat (2 * 1 + a) < nat (2 * 1 + b)"
    by arith
  have one: "\<lceil>1 / (x / 2)\<rceil> = 1" "\<lceil>1 / x\<rceil> = 1"
    using pos big by (simp_all add: ceiling_eq_iff field_simps)
  have "x / 2 + 1 \<le> x" using big by simp
  then have "\<lfloor>x / 2 + 1\<rfloor> \<le> \<lfloor>x\<rfloor>" by (rule floor_mono)
  then have less: "\<lfloor>x / 2\<rfloor> < \<lfloor>x\<rfloor>" by simp
  have "\<lfloor>2::rat\<rfloor> \<le> \<lfloor>x\<rfloor>" using big by (rule floor_mono)
  then have two: "2 \<le> \<lfloor>x\<rfloor>" by simp
  have "nat (2 * 1 + \<lfloor>x / 2\<rfloor>) < nat (2 * 1 + \<lfloor>x\<rfloor>)"
    using less two by (rule halving)
  then have "nat (2 * \<lceil>1 / (x / 2)\<rceil> + \<lfloor>x / 2\<rfloor>) < nat (2 * \<lceil>1 / x\<rceil> + \<lfloor>x\<rfloor>)"
    by (simp only: one)
  then show "(x / 2, x) \<in> measure (\<lambda>x. nat (2 * \<lceil>1 / x\<rceil> + \<lfloor>x\<rfloor>))"
    by (simp only: in_measure)
next
  fix x :: rat assume pos: "\<not> x \<le> 0" and "\<not> 2 \<le> x" and small: "x < 1"
  have doubling: "\<And>c d f :: int. c < d \<Longrightarrow> f \<le> 1 \<Longrightarrow> 2 \<le> d \<Longrightarrow> nat (2 * c + f) < nat (2 * d + 0)"
    by arith
  have below: "\<And>c d :: int. c \<le> d - 1 \<Longrightarrow> c < d"
    by arith
  have fl: "\<lfloor>x\<rfloor> = 0" "\<lfloor>x * 2\<rfloor> \<le> 1"
    using pos small by (simp_all add: floor_eq_iff floor_le_iff)
  define y where "y = 1 / x"
  have y: "1 < y" using pos small by (simp add: y_def)
  have c2: "2 \<le> \<lceil>y\<rceil>" using y by (simp add: le_ceiling_iff)
  have a: "y \<le> of_int \<lceil>y\<rceil>" by (rule le_of_int_ceiling)
  have "rat_of_int 2 \<le> of_int \<lceil>y\<rceil>" using c2 by (simp only: of_int_le_iff)
  then have b: "(2::rat) \<le> of_int \<lceil>y\<rceil>" by simp
  have "y / 2 \<le> of_int \<lceil>y\<rceil> - 1" using a b by linarith
  then have "y / 2 \<le> of_int (\<lceil>y\<rceil> - 1)" by simp
  then have "\<lceil>y / 2\<rceil> \<le> \<lceil>y\<rceil> - 1" by (simp only: ceiling_le_iff)
  then have "\<lceil>y / 2\<rceil> < \<lceil>y\<rceil>" by (rule below)
  moreover have "y / 2 = 1 / (x * 2)" by (simp add: y_def)
  ultimately have less: "\<lceil>1 / (x * 2)\<rceil> < \<lceil>y\<rceil>" by (simp only:)
  have "nat (2 * \<lceil>1 / (x * 2)\<rceil> + \<lfloor>x * 2\<rfloor>) < nat (2 * \<lceil>y\<rceil> + 0)"
    using less fl(2) c2 by (rule doubling)
  then have "nat (2 * \<lceil>1 / (x * 2)\<rceil> + \<lfloor>x * 2\<rfloor>) < nat (2 * \<lceil>1 / x\<rceil> + \<lfloor>x\<rfloor>)"
    by (simp only: fl(1) y_def)
  then show "(x * 2, x) \<in> measure (\<lambda>x. nat (2 * \<lceil>1 / x\<rceil> + \<lfloor>x\<rfloor>))"
    by (simp only: in_measure)
qed

declare binade.simps [simp del]

definition to_double :: "rat \<Rightarrow> rat" where
  "to_double x =
     (if x = 0 then 0
      else let ulp = 2 powi (binade \<bar>x\<bar> - 52)
           in sgn x * of_int (round_half_even (\<bar>x\<bar> / ulp)) * ulp)"

definition js_round :: "rat \<Rightarrow> int" where
  "js_round x = \<lfloor>x + 1 / 2\<rfloor>"

definition percent :: "int \<Rightarrow> int \<Rightarrow> int" where
  "percent a b = js_round (to_double (to_double (of_int a / of_int b) * 100))"

subsection \<open>The pre-save hook (lines 244-267)\<close>

definition compute_errorRate :: "mistake \<Rightarrow> mistake" where
  "compute_errorRate this =
     (if totalAttempts (errorStats this) > 0
      then this\<lparr>errorStats := (errorStats this)\<lparr>errorRate :=
             percent (totalAttempts (errorStats this) - correctAttempts (errorStats this))
               (totalAttempts (errorStats this))\<rparr>\<rparr>
      else this)"

definition promote_on_streak :: "mistake \<Rightarrow> mistake" where
  "promote_on_streak this =
     (if consecutiveCorrect (reviewInfo this) \<ge> 3
      then this\<lparr>masteryLevel := min 5 (masteryLevel this + 1),
                reviewInfo := (reviewInfo this)\<lparr>consecutiveCorrect := 0\<rparr>\<rparr>
      else this)"

definition mark_mastered :: "millis \<Rightarrow> mistake \<Rightarrow> mistake" where
  "mark_mastered now this =
     (if masteryLevel this \<ge> 5 \<and> reviewStatus this \<noteq> Mastered
      then this\<lparr>reviewStatus := Mastered,
                metadata := (metadata this)\<lparr>isArchived := True, archiveDate := Some now\<rparr>\<rparr>
      else this)"

definition pre_save :: "millis \<Rightarrow> mistake \<Rightarrow> mistake" where
  "pre_save now this =
     mark_mastered now (promote_on_streak (compute_errorRate (this\<lparr>updatedAt := now\<rparr>)))"

text \<open>
  \<open>doc.save()\<close> on a document that was read from the collection: the hook runs and the stored
  document with the same \<open>_id\<close> is replaced.
\<close>

definition save :: "millis \<Rightarrow> mistake \<Rightarrow> mistake list \<Rightarrow> mistake \<times> mistake list" where
  "save now d coll =
     (let d' = pre_save now d
      in (d', map (\<lambda>x. if doc_id x = doc_id d' then d' else x) coll))"

subsection \<open>recordReview (lines 531-579)\<close>

text \<open>
  The function reads the clock three times: \<open>Date.now()\<close> for \<open>lastReviewDate\<close>, then
  \<open>new Date()\<close> (correct answer) or \<open>Date.now()\<close> (wrong answer) for the next review date, then
  \<open>Date.now()\<close> inside the hook (its two calls there are one reading). The three readings
  are the fields of a \<open>clock\<close>.

  \<open>date.setDate(date.getDate() + n)\<close> moves a date by \<open>n\<close> calendar days of the server's
  time zone; with a fixed offset from UTC that is \<open>n\<close> times 86400000 ms. Adding
  \<open>undefined\<close> gives NaN and \<open>setDate(NaN)\<close> makes the date invalid.
\<close>

record clock =
  t_review :: millis
  t_schedule :: millis
  t_save :: millis

datatype error = MistakeNotFound | InvalidLimit | ValidationFailed

definition intervals :: "int list" where
  "intervals = [1, 2, 4, 7, 15, 30, 60, 90]"

definition intervals_at :: "int \<Rightarrow> int option" where
  "intervals_at i = (if 0 \<le> i \<and> i < int (length intervals) then Some (intervals ! nat i) else None)"

definition addDays :: "millis \<Rightarrow> int \<Rightarrow> millis" where
  "addDays t n = t + n * 86400000"

definition schedule_next :: "millis \<Rightarrow> mistake \<Rightarrow> mistake" where
  "schedule_next now m =
     (let intervalIndex = min (consecutiveCorrect (reviewInfo m) - 1) (int (length intervals) - 1)
      in m\<lparr>reviewInfo := (reviewInfo m)\<lparr>nextReviewDate :=
             (case intervals_at intervalIndex of
                Some nextReviewDays \<Rightarrow> ValidDate (addDays now nextReviewDays)
              | None \<Rightarrow> InvalidDate)\<rparr>\<rparr>)"

definition review_correct :: "millis \<Rightarrow> mistake \<Rightarrow> mistake" where
  "review_correct now m =
     promote_on_streak
       (schedule_next now
          (m\<lparr>reviewInfo := (reviewInfo m)\<lparr>consecutiveCorrect := consecutiveCorrect (reviewInfo m) + 1\<rparr>,
              errorStats := (errorStats m)\<lparr>correctAttempts := correctAttempts (errorStats m) + 1\<rparr>\<rparr>))"

definition review_incorrect :: "millis \<Rightarrow> mistake \<Rightarrow> mistake" where
  "review_incorrect now m =
     m\<lparr>reviewInfo := (reviewInfo m)\<lparr>consecutiveCorrect := 0, nextReviewDate := ValidDate now\<rparr>,
        masteryLevel := max 1 (masteryLevel m - 1)\<rparr>"

definition review_update :: "clock \<Rightarrow> bool \<Rightarrow> mistake \<Rightarrow> mistake" where
  "review_update clk isCorrect m =
     (let m1 = m\<lparr>reviewInfo := (reviewInfo m)\<lparr>reviewCount := reviewCount (reviewInfo m) + 1,
                                                lastReviewDate := Some (t_review clk)\<rparr>\<rparr>;
          m2 = (if isCorrect then review_correct (t_schedule clk) m1
                else review_incorrect (t_schedule clk) m1)
      in m2\<lparr>errorStats := (errorStats m2)\<lparr>totalAttempts := totalAttempts (errorStats m2) + 1\<rparr>\<rparr>)"

definition recordReview ::
  "clock \<Rightarrow> mistake list \<Rightarrow> objectId \<Rightarrow> objectId \<Rightarrow> bool \<Rightarrow> error + mistake \<times> mistake list" where
  "recordReview clk coll mistakeId userId isCorrect =
     (case find (\<lambda>d. doc_id d = mistakeId \<and> user d = userId) coll of
        None \<Rightarrow> Inl MistakeNotFound
      | Some m \<Rightarrow>
          if nextReviewDate (reviewInfo (review_update clk isCorrect m)) = InvalidDate
          then Inl ValidationFailed
          else Inr (save (t_save clk) (review_update clk isCorrect m) coll))"

text \<open>The document as it is after one review and its save.\<close>

definition reviewed :: "clock \<Rightarrow> bool \<Rightarrow> mistake \<Rightarrow> mistake" where
  "reviewed clk isCorrect m = pre_save (t_save clk) (review_update clk isCorrect m)"

definition reviewed_all :: "clock list \<Rightarrow> mistake \<Rightarrow> mistake" where
  "reviewed_all clks m = foldl (\<lambda>d clk. reviewed clk True d) m clks"

text \<open>A record that is marked mastered is archived: the hook keeps this, and restores it
  whenever the mastery level is 5 at a save.\<close>

definition archived_if_mastered :: "mistake \<Rightarrow> bool" where
  "archived_if_mastered m = (reviewStatus m = Mastered \<longrightarrow> isArchived (metadata m))"

text \<open>
  \<open>recordReview\<close> called once per clock of a list, every time with a correct answer, on the
  collection the call before left behind.
\<close>

fun recordReviews ::
  "clock list \<Rightarrow> mistake list \<Rightarrow> objectId \<Rightarrow> objectId \<Rightarrow> error + mistake list" where
  "recordReviews [] coll mistakeId userId = Inr coll"
| "recordReviews (clk # clks) coll mistakeId userId =
     (case recordReview clk coll mistakeId userId True of
        Inl e \<Rightarrow> Inl e
      | Inr (m, coll') \<Rightarrow> recordReviews clks coll' mistakeId userId)"

subsection \<open>createMistakeRecord (lines 270-306)\<close>

text \<open>
  The argument \<open>mistakeData\<close> is a plain object; the fields the function reads with a
  \<open>||\<close> fallback may be absent (\<open>None\<close>). A string is falsy when empty, a number when zero.
  \<open>[...new Set(xs)]\<close> keeps the first occurrence of every element, in order of insertion.
  \<open>populate\<close> only attaches the referenced documents to the returned object and is left out.
  \<open>mistakeData\<close> carries the required paths: user, question, the snapshot and the answer.
  A result \<open>Inl\<close> is the error the function throws; the collection is then as it was.
\<close>

record mistake_data =
  md_user :: objectId
  md_question :: objectId
  md_questionSnapshot :: string
  md_userAnswer :: string
  md_mistakeReason :: "string option"
  md_importance :: "int option"
  md_tags :: "string list option"
  md_source :: "source_kind option"
  md_examRecord :: "objectId option"

fun insertion_order :: "'a list \<Rightarrow> 'a list \<Rightarrow> 'a list" where
  "insertion_order seen [] = seen"
| "insertion_order seen (x # xs) =
     (if x \<in> set seen then insertion_order seen xs else insertion_order (seen @ [x]) xs)"

definition spread_set :: "'a list \<Rightarrow> 'a list" where
  "spread_set xs = insertion_order [] xs"

definition update_existing :: "mistake_data \<Rightarrow> mistake \<Rightarrow> mistake" where
  "update_existing mistakeData existingMistake =
     existingMistake
       \<lparr>errorStats := (errorStats existingMistake)
          \<lparr>totalAttempts := totalAttempts (errorStats existingMistake) + 1\<rparr>,
        userAnswer := md_userAnswer mistakeData,
        mistakeReason :=
          (case md_mistakeReason mistakeData of
             Some r \<Rightarrow> if r \<noteq> [] then r else mistakeReason existingMistake
           | None \<Rightarrow> mistakeReason existingMistake),
        importance :=
          (case md_importance mistakeData of
             Some i \<Rightarrow> if i \<noteq> 0 then i else importance existingMistake
           | None \<Rightarrow> importance existingMistake),
        tags := spread_set (tags existingMistake
                  @ (case md_tags mistakeData of Some ts \<Rightarrow> ts | None \<Rightarrow> [])),
        source :=
          (case md_source mistakeData of Some s \<Rightarrow> s | None \<Rightarrow> source existingMistake),
        examRecord :=
          (case md_examRecord mistakeData of
             Some e \<Rightarrow> Some e
           | None \<Rightarrow> examRecord existingMistake)\<rparr>"

text \<open>\<open>new this(mistakeData)\<close>: the given fields, and the schema's defaults for the others.\<close>

definition new_mistake :: "objectId \<Rightarrow> millis \<Rightarrow> mistake_data \<Rightarrow> mistake" where
  "new_mistake newId now mistakeData =
     \<lparr>doc_id = newId,
      user = md_user mistakeData,
      question = md_question mistakeData,
      questionSnapshot = md_questionSnapshot mistakeData,
      userAnswer = md_userAnswer mistakeData,
      mistakeReason = (case md_mistakeReason mistakeData of Some r \<Rightarrow> r | None \<Rightarrow> []),
      tags = (case md_tags mistakeData of Some ts \<Rightarrow> ts | None \<Rightarrow> []),
      importance = (case md_importance mistakeData of Some i \<Rightarrow> i | None \<Rightarrow> 3),
      masteryLevel = 1,
      reviewStatus = Unreviewed,
      reviewInfo = \<lparr>reviewCount = 0, lastReviewDate = None, nextReviewDate = ValidDate now,
                    reviewIntervals = [], consecutiveCorrect = 0\<rparr>,
      errorStats = \<lparr>totalAttempts = 1, correctAttempts = 0, errorRate = 100\<rparr>,
      source = (case md_source mistakeData of Some s \<Rightarrow> s | None \<Rightarrow> Exam),
      examRecord = md_examRecord mistakeData,
      updatedAt = now,
      metadata = \<lparr>isArchived = False, archiveDate = None, isPublic = False, viewCount = 0\<rparr>\<rparr>"




subsection \<open>getRecommendedForReview (lines 657-688)\<close>

text \<open>
  The aggregation pipeline has four stages: \<open>$match\<close>, \<open>$addFields\<close>, \<open>$sort\<close> and
  \<open>$limit\<close>. Every expression of one \<open>$addFields\<close> stage is evaluated on the stage's input
  document, so the reference \<open>'$isOverdue'\<close> inside \<open>reviewScore\<close> reads the path
  \<open>isOverdue\<close> of the stored document, not the field the same stage is adding. The schema
  declares no such path (\<open>isDueForReview\<close> is a virtual and is never stored), hence the
  reference is a missing field, and \<open>$cond\<close> takes its else branch on a missing value.
  \<open>$limit\<close> refuses a count that is not positive. The order of documents with equal scores
  is up to the server; the model sorts stably.
\<close>

record scored =
  doc :: mistake
  isOverdue :: bool
  reviewScore :: rat

definition stored_isOverdue :: "mistake \<Rightarrow> bool option" where
  "stored_isOverdue d = None"

definition cond_expr :: "bool option \<Rightarrow> rat \<Rightarrow> rat \<Rightarrow> rat" where
  "cond_expr c a b = (case c of Some True \<Rightarrow> a | _ \<Rightarrow> b)"

definition date_lt :: "jsdate \<Rightarrow> millis \<Rightarrow> bool" where
  "date_lt d now = (case d of ValidDate t \<Rightarrow> t < now | InvalidDate \<Rightarrow> False)"

definition addFields :: "millis \<Rightarrow> mistake \<Rightarrow> scored" where
  "addFields now d =
     \<lparr>doc = d,
      isOverdue = date_lt (nextReviewDate (reviewInfo d)) now,
      reviewScore =
        of_int (importance d) * 20
        + (6 - of_int (masteryLevel d)) * 15
        + cond_expr (stored_isOverdue d) 50 0
        + of_int (errorRate (errorStats d)) * (1 / 2)\<rparr>"

definition getRecommendedForReview ::
  "millis \<Rightarrow> mistake list \<Rightarrow> objectId \<Rightarrow> int \<Rightarrow> error + scored list" where
  "getRecommendedForReview now coll userId count =
     (let matched = filter (\<lambda>d. user d = userId \<and> \<not> isArchived (metadata d)) coll;
          recommended = sort_key (\<lambda>s. - reviewScore s) (map (addFields now) matched)
      in if count \<le> 0 then Inl InvalidLimit else Inr (take (nat count) recommended))"

section \<open>Exam records (src/models/ExamRecord.js)\<close>

text \<open>
  The four grades are the strings of the schema's enum: excellent, good, pass and fail, in
  that order. \<open>generateShareCode\<close> draws eight random characters; the code it returns is an
  argument of the hook.
\<close>

datatype grade = Excellent | Good | Pass | Fail

datatype question_type = Single | Multiple | Judge | Fill | Essay

record exam_question =
  q_type :: question_type
  q_isCorrect :: bool
  q_timeSpent :: rat

record exam_config =
  totalQuestions :: int
  passingScore :: rat

record exam_result =
  score :: rat
  grade :: grade
  correctCount :: int
  accuracy :: int
  isPassed :: bool

record exam_sharing =
  sharedPublicly :: bool
  shareCode :: "string option"

record type_performance =
  tp_correct :: int
  tp_total :: int
  tp_rate :: int

record time_analysis =
  avgTimePerQuestion :: int
  fastestQuestion :: rat
  slowestQuestion :: rat

record exam_analysis =
  typePerformance :: "question_type \<Rightarrow> type_performance"
  timeAnalysis :: "time_analysis option"

record exam_record =
  config :: exam_config
  result :: exam_result
  questions :: "exam_question list"
  sharing :: exam_sharing
  analysis :: exam_analysis

definition assign_grade :: "exam_record \<Rightarrow> exam_record" where
  "assign_grade this =
     this\<lparr>result := (result this)\<lparr>grade :=
        (if score (result this) \<ge> 90 then Excellent
         else if score (result this) \<ge> 80 then Good
         else if score (result this) \<ge> 60 then Pass
         else Fail)\<rparr>\<rparr>"

definition check_passed :: "exam_record \<Rightarrow> exam_record" where
  "check_passed this =
     this\<lparr>result := (result this)\<lparr>isPassed := (score (result this) \<ge> passingScore (config this))\<rparr>\<rparr>"

definition compute_accuracy :: "exam_record \<Rightarrow> exam_record" where
  "compute_accuracy this =
     (if totalQuestions (config this) > 0
      then this\<lparr>result := (result this)\<lparr>accuracy :=
             percent (correctCount (result this)) (totalQuestions (config this))\<rparr>\<rparr>
      else this)"

definition ensure_shareCode :: "string \<Rightarrow> exam_record \<Rightarrow> exam_record" where
  "ensure_shareCode generated this =
     (if sharedPublicly (sharing this) \<and> (shareCode (sharing this) = None \<or> shareCode (sharing this) = Some [])
      then this\<lparr>sharing := (sharing this)\<lparr>shareCode := Some generated\<rparr>\<rparr>
      else this)"

definition calculateTypePerformance :: "exam_record \<Rightarrow> exam_record" where
  "calculateTypePerformance this =
     this\<lparr>analysis := (analysis this)\<lparr>typePerformance :=
        (\<lambda>ty. let total = int (length (filter (\<lambda>q. q_type q = ty) (questions this)));
                   correct = int (length (filter (\<lambda>q. q_type q = ty \<and> q_isCorrect q) (questions this)))
               in \<lparr>tp_correct = correct, tp_total = total,
                   tp_rate = (if total > 0 then percent correct total else 0)\<rparr>)\<rparr>\<rparr>"

definition calculateTimeAnalysis :: "exam_record \<Rightarrow> exam_record" where
  "calculateTimeAnalysis this =
     (let timeSpentArray = map q_timeSpent (filter (\<lambda>q. q_timeSpent q > 0) (questions this));
          totalTime = foldl (\<lambda>sum time. to_double (sum + time)) 0 timeSpentArray
      in if length timeSpentArray > 0
         then this\<lparr>analysis := (analysis this)\<lparr>timeAnalysis := Some
                \<lparr>avgTimePerQuestion = js_round (to_double (totalTime / of_nat (length timeSpentArray))),
                 fastestQuestion = Min (set timeSpentArray),
                 slowestQuestion = Max (set timeSpentArray)\<rparr>\<rparr>\<rparr>
         else this)"

definition exam_pre_save :: "string \<Rightarrow> exam_record \<Rightarrow> exam_record" where
  "exam_pre_save generated this =
     calculateTimeAnalysis (calculateTypePerformance
       (ensure_shareCode generated (compute_accuracy (check_passed (assign_grade this)))))"

section \<open>Client-side synchronisation\<close>

text \<open>
  The three scripts work on \<open>window.app\<close>, the application's state in the browser, and on a
  document that \<open>JSON.parse\<close> produced. A parsed value is a \<open>json\<close>; reading a property that
  is not there gives \<open>undefined\<close>, which is \<open>None\<close> of \<open>json option\<close>. The property names
  the scripts read are data fields (\<open>id\<close>, \<open>date\<close>, \<open>version\<close>, ...), which only an
  object can have; reading any property of \<open>null\<close> throws a TypeError.

  Persisting the state (\<open>saveUserData\<close>, \<open>localStorage\<close>), logging and notifications change
  nothing the functions below read and are left out. The question banks and the exam
  records of the state may be missing (\<open>None\<close>); the three counters of the study statistics
  are numbers.
\<close>

datatype json =
  JNull | JBool bool | JNum rat | JStr string | JArr "json list" | JObj "(string \<times> json) list"

datatype js_error = TypeError | InvalidFormat | AppNotFound | NotLoggedIn

fun truthy :: "json \<Rightarrow> bool" where
  "truthy JNull = False"
| "truthy (JBool b) = b"
| "truthy (JNum n) = (n \<noteq> 0)"
| "truthy (JStr s) = (s \<noteq> [])"
| "truthy (JArr xs) = True"
| "truthy (JObj kvs) = True"

definition truthy_opt :: "json option \<Rightarrow> bool" where
  "truthy_opt v = (case v of None \<Rightarrow> False | Some j \<Rightarrow> truthy j)"

text \<open>\<open>typeof v === 'object'\<close>\<close>

fun typeof_object :: "json \<Rightarrow> bool" where
  "typeof_object JNull = True"
| "typeof_object (JArr xs) = True"
| "typeof_object (JObj kvs) = True"
| "typeof_object v = False"

fun js_get :: "json \<Rightarrow> string \<Rightarrow> json option" where
  "js_get (JObj kvs) k = map_of kvs k"
| "js_get v k = None"

text \<open>
  Membership in a \<open>Set\<close> and \<open>===\<close> compare numbers, strings, booleans, \<open>null\<close> and
  \<open>undefined\<close> by value and objects by reference. An object inside a freshly parsed
  document is never the same reference as one held by the state.
\<close>

fun is_primitive :: "json \<Rightarrow> bool" where
  "is_primitive (JArr xs) = False"
| "is_primitive (JObj kvs) = False"
| "is_primitive v = True"

definition same_value :: "json option \<Rightarrow> json option \<Rightarrow> bool" where
  "same_value a b =
     (case (a, b) of
        (None, None) \<Rightarrow> True
      | (Some x, Some y) \<Rightarrow> is_primitive x \<and> x = y
      | _ \<Rightarrow> False)"

definition set_has :: "json option list \<Rightarrow> json option \<Rightarrow> bool" where
  "set_has keys v = list_ex (\<lambda>k. same_value k v) keys"

text \<open>
  The merge every script repeats: the keys of the existing items are collected in a
  \<open>Set\<close>, and the new items whose key is not in it are kept. \<open>item.key\<close> throws on a
  \<open>null\<close> item, in either list.
\<close>

definition new_by_key :: "string \<Rightarrow> json list \<Rightarrow> json list \<Rightarrow> js_error + json list" where
  "new_by_key key newItems existingItems =
     (if JNull \<in> set existingItems \<or> JNull \<in> set newItems then Inl TypeError
      else Inr (filter (\<lambda>item. \<not> set_has (map (\<lambda>e. js_get e key) existingItems) (js_get item key))
                  newItems))"

record study_stats =
  st_totalQuestions :: rat
  st_correctAnswers :: rat
  st_totalStudyTime :: rat
  st_examRecords :: "json list option"

record user_account =
  account_id :: json
  username :: string

record app =
  currentUser :: "user_account option"
  publicQuestionBank :: "json list option"
  personalQuestionBank :: "json list option"
  mistakeBank :: "json list option"
  studyStats :: "study_stats option"
  syncStatus :: string
  lastSyncTime :: "string option"

text \<open>
  A counter is overwritten when the document's value is greater. The comparison is on
  numbers; a counter that is absent from the document compares false, and a value that is
  not a number (which JavaScript would coerce first) is not taken over.
\<close>

definition merge_counter :: "json option \<Rightarrow> rat \<Rightarrow> rat" where
  "merge_counter v t = (case v of Some (JNum n) \<Rightarrow> if n > t then n else t | _ \<Rightarrow> t)"

definition merge_counters :: "json \<Rightarrow> study_stats \<Rightarrow> study_stats" where
  "merge_counters sourceStats targetStats =
     targetStats
       \<lparr>st_totalQuestions := merge_counter (js_get sourceStats ''totalQuestions'') (st_totalQuestions targetStats),
        st_correctAnswers := merge_counter (js_get sourceStats ''correctAnswers'') (st_correctAnswers targetStats),
        st_totalStudyTime := merge_counter (js_get sourceStats ''totalStudyTime'') (st_totalStudyTime targetStats)\<rparr>"

text \<open>
  Merging exam records into statistics whose counters are already merged. The counters
  stay merged when the records throw: the object was changed in place.
\<close>

definition merge_examRecords :: "string \<Rightarrow> json \<Rightarrow> study_stats \<Rightarrow> js_error option \<times> study_stats" where
  "merge_examRecords key sourceStats targetStats =
     (case js_get sourceStats ''examRecords'' of
        Some (JArr records) \<Rightarrow>
          (case st_examRecords targetStats of
             None \<Rightarrow> (Some TypeError, targetStats)
           | Some existing \<Rightarrow>
               (case new_by_key key records existing of
                  Inl e \<Rightarrow> (Some e, targetStats)
                | Inr newRecords \<Rightarrow> (None, targetStats\<lparr>st_examRecords := Some (existing @ newRecords)\<rparr>)))
      | _ \<Rightarrow> (None, targetStats))"

subsection \<open>SyncManager (src/unnamed/part_000)\<close>

definition validDataTypes :: "json list" where
  "validDataTypes = [JStr ''publicQuestions'', JStr ''personalQuestions'', JStr ''mistakeBank'', JStr ''studyStats'']"

definition validateImportData :: "json \<Rightarrow> bool" where
  "validateImportData data =
     (if \<not> truthy data \<or> \<not> typeof_object data then False
      else if \<not> truthy_opt (js_get data ''version'') \<or> \<not> truthy_opt (js_get data ''exportTime'')
              \<or> \<not> truthy_opt (js_get data ''deviceId'') then False
      else if truthy_opt (js_get data ''dataTypes'')
        then (case js_get data ''dataTypes'' of
                Some (JArr types) \<Rightarrow> types \<noteq> [] \<and> list_all (\<lambda>t. t \<in> set validDataTypes) types
              | _ \<Rightarrow> False)
      else True)"

definition removeDuplicates :: "json list \<Rightarrow> json list \<Rightarrow> js_error + json list" where
  "removeDuplicates newItems existingItems = new_by_key ''id'' newItems existingItems"

definition mergeStudyStats :: "study_stats option \<Rightarrow> json \<Rightarrow> js_error option \<times> study_stats option" where
  "mergeStudyStats targetStats sourceStats =
     (case targetStats of
        None \<Rightarrow> (None, None)
      | Some target \<Rightarrow>
          if \<not> truthy sourceStats then (None, Some target)
          else (case merge_examRecords ''id'' sourceStats (merge_counters sourceStats target) of
                  (e, target') \<Rightarrow> (e, Some target')))"

text \<open>
  One collection of the document: skipped unless it is an array; otherwise the new items
  are pushed onto the bank, which throws when the bank is missing. The first component is
  \<open>None\<close> when the field was skipped, the error that the \<open>catch\<close> records, or the number of
  items imported.
\<close>

definition import_collection ::
  "json option \<Rightarrow> json list option \<Rightarrow> (js_error + nat) option \<times> json list option" where
  "import_collection field bank =
     (case field of
        Some (JArr newItems) \<Rightarrow>
          (case removeDuplicates newItems (case bank of Some b \<Rightarrow> b | None \<Rightarrow> []) of
             Inl e \<Rightarrow> (Some (Inl e), bank)
           | Inr uniqueItems \<Rightarrow>
               (case bank of
                  None \<Rightarrow> (Some (Inl TypeError), None)
                | Some b \<Rightarrow> (Some (Inr (length uniqueItems)), Some (b @ uniqueItems))))
      | _ \<Rightarrow> (None, bank))"

datatype import_field = PublicQuestions | PersonalQuestions | MistakeBank | StudyStats

definition failed :: "import_field \<Rightarrow> (js_error + nat) option \<Rightarrow> import_field list" where
  "failed f r = (case r of Some (Inl e) \<Rightarrow> [f] | _ \<Rightarrow> [])"

definition imported_count :: "(js_error + nat) option \<Rightarrow> nat option" where
  "imported_count r = (case r of Some (Inr n) \<Rightarrow> Some n | _ \<Rightarrow> None)"

record import_results =
  ir_success :: bool
  ir_publicQuestions :: "nat option"
  ir_personalQuestions :: "nat option"
  ir_mistakes :: "nat option"
  ir_studyStats :: bool
  ir_errors :: "import_field list"

text \<open>
  \<open>importData\<close> from the point where the file has been read and parsed (the checks of the
  file's name and size and \<open>JSON.parse\<close> come before and touch nothing). The result is what
  the promise settles with, and \<open>window.app\<close> as the call leaves it.
\<close>

definition importData ::
  "string \<Rightarrow> app option \<Rightarrow> json \<Rightarrow> (js_error + import_results) \<times> app option" where
  "importData isoNow window importedDoc =
     (if \<not> validateImportData importedDoc then (Inl InvalidFormat, window)
      else case window of
        None \<Rightarrow> (Inl AppNotFound, None)
      | Some app \<Rightarrow>
          (let (r1, publicBank) = import_collection (js_get importedDoc ''publicQuestions'') (publicQuestionBank app);
               (r2, personalBank) = import_collection (js_get importedDoc ''personalQuestions'') (personalQuestionBank app);
               (r3, mistakes) = import_collection (js_get importedDoc ''mistakeBank'') (mistakeBank app);
               statsField = js_get importedDoc ''studyStats'';
               statsTaken = (case statsField of Some v \<Rightarrow> truthy v \<and> typeof_object v | None \<Rightarrow> False);
               (e4, stats) = (case statsField of
                                Some v \<Rightarrow> if statsTaken then mergeStudyStats (studyStats app) v
                                          else (None, studyStats app)
                              | None \<Rightarrow> (None, studyStats app));
               errors = failed PublicQuestions r1 @ failed PersonalQuestions r2 @ failed MistakeBank r3
                        @ (if e4 = None then [] else [StudyStats])
           in (Inr \<lparr>ir_success = (errors = []),
                    ir_publicQuestions = imported_count r1,
                    ir_personalQuestions = imported_count r2,
                    ir_mistakes = imported_count r3,
                    ir_studyStats = (statsTaken \<and> e4 = None),
                    ir_errors = errors\<rparr>,
               Some (app\<lparr>publicQuestionBank := publicBank,
                         personalQuestionBank := personalBank,
                         mistakeBank := mistakes,
                         studyStats := stats,
                         syncStatus := ''synced'',
                         lastSyncTime := Some isoNow\<rparr>))))"

text \<open>
  The merges compare keys by value only when the keys are numbers, strings, booleans,
  \<open>null\<close> or absent. \<open>primitive_ids\<close> says so for the \<open>id\<close> of every item of the four
  collections of a document in the format of \<open>SyncManager\<close>. \<open>stats_after\<close> is the study
  statistics as \<open>importData\<close> leaves them.
\<close>

definition primitive_keys :: "string \<Rightarrow> json list \<Rightarrow> bool" where
  "primitive_keys key items =
     list_all (\<lambda>item. case js_get item key of None \<Rightarrow> True | Some v \<Rightarrow> is_primitive v) items"

definition primitive_keys_field :: "string \<Rightarrow> json option \<Rightarrow> bool" where
  "primitive_keys_field key field =
     (case field of Some (JArr items) \<Rightarrow> primitive_keys key items | _ \<Rightarrow> True)"

definition primitive_ids :: "json \<Rightarrow> bool" where
  "primitive_ids importedDoc =
     (primitive_keys_field ''id'' (js_get importedDoc ''publicQuestions'')
      \<and> primitive_keys_field ''id'' (js_get importedDoc ''personalQuestions'')
      \<and> primitive_keys_field ''id'' (js_get importedDoc ''mistakeBank'')
      \<and> (case js_get importedDoc ''studyStats'' of
            Some st \<Rightarrow> primitive_keys_field ''id'' (js_get st ''examRecords'')
          | None \<Rightarrow> True))"

definition stats_after :: "json option \<Rightarrow> study_stats option \<Rightarrow> study_stats option" where
  "stats_after field stats =
     (case field of
        Some v \<Rightarrow> if truthy v \<and> typeof_object v then snd (mergeStudyStats stats v) else stats
      | None \<Rightarrow> stats)"

subsection \<open>CrossDeviceSync, the file import and export version (src/unnamed/part_001)\<close>

definition validateSyncData :: "json \<Rightarrow> bool" where
  "validateSyncData data =
     (if \<not> truthy data \<or> \<not> typeof_object data then False
      else if \<not> truthy_opt (js_get data ''deviceId'') \<or> \<not> truthy_opt (js_get data ''exportTime'')
              \<or> \<not> truthy_opt (js_get data ''data'') then False
      else case js_get data ''data'' of
        None \<Rightarrow> False
      | Some inner \<Rightarrow>
          if \<not> typeof_object inner then False
          else list_all (\<lambda>field. \<not> (truthy_opt (js_get inner field)
                                     \<and> (case js_get inner field of Some (JArr xs) \<Rightarrow> False | _ \<Rightarrow> True)))
                 [''publicQuestions'', ''personalQuestions'', ''mistakeBank''])"

text \<open>
  \<open>mergePublicQuestions\<close>, \<open>mergePersonalQuestions\<close> and \<open>mergeMistakeBank\<close> are the same
  function on three banks: nothing happens when the bank is not an array, otherwise the
  items with a new \<open>id\<close> are pushed and counted.
\<close>

definition merge_bank :: "json list \<Rightarrow> json list option \<Rightarrow> js_error + nat \<times> json list option" where
  "merge_bank newItems bank =
     (case bank of
        None \<Rightarrow> Inr (0, None)
      | Some current \<Rightarrow>
          (case new_by_key ''id'' newItems current of
             Inl e \<Rightarrow> Inl e
           | Inr toAdd \<Rightarrow> Inr (length toAdd, Some (current @ toAdd))))"

definition mergePublicQuestions_file :: "json list \<Rightarrow> app \<Rightarrow> js_error + nat \<times> app" where
  "mergePublicQuestions_file newQuestions a =
     map_sum id (\<lambda>(n, bank). (n, a\<lparr>publicQuestionBank := bank\<rparr>))
       (merge_bank newQuestions (publicQuestionBank a))"

definition mergePersonalQuestions_file :: "json list \<Rightarrow> app \<Rightarrow> js_error + nat \<times> app" where
  "mergePersonalQuestions_file newQuestions a =
     map_sum id (\<lambda>(n, bank). (n, a\<lparr>personalQuestionBank := bank\<rparr>))
       (merge_bank newQuestions (personalQuestionBank a))"

definition mergeMistakeBank_file :: "json list \<Rightarrow> app \<Rightarrow> js_error + nat \<times> app" where
  "mergeMistakeBank_file newMistakes a =
     map_sum id (\<lambda>(n, bank). (n, a\<lparr>mistakeBank := bank\<rparr>))
       (merge_bank newMistakes (mistakeBank a))"

definition mergeStudyStats_file :: "json \<Rightarrow> app \<Rightarrow> js_error option \<times> app" where
  "mergeStudyStats_file importedStats a =
     (case studyStats a of
        None \<Rightarrow> (None, a)
      | Some appStats \<Rightarrow>
          if \<not> truthy importedStats then (None, a)
          else (case merge_examRecords ''date'' importedStats (merge_counters importedStats appStats) of
                  (e, appStats') \<Rightarrow> (e, a\<lparr>studyStats := Some appStats'\<rparr>)))"

record import_stats =
  is_publicQuestions :: nat
  is_personalQuestions :: nat
  is_mistakes :: nat
  is_studyStats :: bool

text \<open>
  A step of the import that is taken only when the field of \<open>importData.data\<close> is an array.
  An exception leaves the handler at once, with the state as the earlier steps changed it.
\<close>

definition merge_step ::
  "(json list \<Rightarrow> app \<Rightarrow> js_error + nat \<times> app) \<Rightarrow> json option \<Rightarrow> app \<Rightarrow> js_error + nat \<times> app" where
  "merge_step merge field a =
     (case field of Some (JArr items) \<Rightarrow> merge items a | _ \<Rightarrow> Inr (0, a))"

definition importSyncData_file ::
  "app option \<Rightarrow> json \<Rightarrow> (js_error + import_stats) \<times> app option" where
  "importSyncData_file window importedDoc =
     (case window of
        None \<Rightarrow> (Inl AppNotFound, None)
      | Some a0 \<Rightarrow>
          if \<not> validateSyncData importedDoc then (Inl InvalidFormat, Some a0)
          else
            (let inner = (case js_get importedDoc ''data'' of Some d \<Rightarrow> d | None \<Rightarrow> JNull)
             in case merge_step mergePublicQuestions_file (js_get inner ''publicQuestions'') a0 of
                  Inl e \<Rightarrow> (Inl e, Some a0)
                | Inr (n1, a1) \<Rightarrow>
                 (case merge_step mergePersonalQuestions_file (js_get inner ''personalQuestions'') a1 of
                    Inl e \<Rightarrow> (Inl e, Some a1)
                  | Inr (n2, a2) \<Rightarrow>
                   (case merge_step mergeMistakeBank_file (js_get inner ''mistakeBank'') a2 of
                      Inl e \<Rightarrow> (Inl e, Some a2)
                    | Inr (n3, a3) \<Rightarrow>
                     (case js_get inner ''studyStats'' of
                        None \<Rightarrow>
                          (Inr \<lparr>is_publicQuestions = n1, is_personalQuestions = n2,
                                is_mistakes = n3, is_studyStats = False\<rparr>, Some a3)
                      | Some st \<Rightarrow>
                          if \<not> truthy st
                          then (Inr \<lparr>is_publicQuestions = n1, is_personalQuestions = n2,
                                     is_mistakes = n3, is_studyStats = False\<rparr>, Some a3)
                          else (case mergeStudyStats_file st a3 of
                                  (Some e, a4) \<Rightarrow> (Inl e, Some a4)
                                | (None, a4) \<Rightarrow>
                                    (Inr \<lparr>is_publicQuestions = n1, is_personalQuestions = n2,
                                          is_mistakes = n3, is_studyStats = True\<rparr>, Some a4)))))))"

subsection \<open>CrossDeviceSync, the server sync version (src/cross-device-sync.js)\<close>

text \<open>
  \<open>importSyncData\<close> validates nothing. Its guards \<open>x && x.length > 0\<close> are written for
  arrays, and the document here is one whose three collections are arrays when they are
  present, as \<open>exportSyncData\<close> writes them.
\<close>

record sync_data =
  sd_publicQuestions :: "json list option"
  sd_personalQuestions :: "json list option"
  sd_mistakeBank :: "json list option"

definition mergePublicQuestions :: "json list \<Rightarrow> app option \<Rightarrow> js_error + app option" where
  "mergePublicQuestions newQuestions window =
     (case window of
        None \<Rightarrow> Inr None
      | Some a \<Rightarrow>
          (case publicQuestionBank a of
             None \<Rightarrow> Inl TypeError
           | Some currentQuestions \<Rightarrow>
               (case new_by_key ''id'' newQuestions currentQuestions of
                  Inl e \<Rightarrow> Inl e
                | Inr newQuestionsToAdd \<Rightarrow>
                    if length newQuestionsToAdd > 0
                    then Inr (Some (a\<lparr>publicQuestionBank := Some (currentQuestions @ newQuestionsToAdd)\<rparr>))
                    else Inr (Some a))))"

definition push_all :: "json list option \<Rightarrow> json list option \<Rightarrow> js_error + json list option" where
  "push_all field bank =
     (case field of
        None \<Rightarrow> Inr bank
      | Some items \<Rightarrow>
          if length items > 0
          then (case bank of None \<Rightarrow> Inl TypeError | Some b \<Rightarrow> Inr (Some (b @ items)))
          else Inr bank)"

definition importSyncData :: "app option \<Rightarrow> sync_data \<Rightarrow> js_error option \<times> app option" where
  "importSyncData window data =
     (case (case sd_publicQuestions data of
              None \<Rightarrow> Inr window
            | Some qs \<Rightarrow> if length qs > 0 then mergePublicQuestions qs window else Inr window) of
        Inl e \<Rightarrow> (Some e, window)
      | Inr None \<Rightarrow> (None, None)
      | Inr (Some a1) \<Rightarrow>
          (case push_all (sd_personalQuestions data) (personalQuestionBank a1) of
             Inl e \<Rightarrow> (Some e, Some a1)
           | Inr personal \<Rightarrow>
               (let a2 = a1\<lparr>personalQuestionBank := personal\<rparr>
                in case push_all (sd_mistakeBank data) (mistakeBank a2) of
                     Inl e \<Rightarrow> (Some e, Some a2)
                   | Inr mistakes \<Rightarrow> (None, Some (a2\<lparr>mistakeBank := mistakes\<rparr>)))))"

subsection \<open>SyncManager.exportData and generateSampleData (src/unnamed/part_000)\<close>











section \<open>Example data\<close>

text \<open>Concrete documents and states on which the theorems below are instantiated.\<close>

definition sample_clock :: clock where
  "sample_clock = \<lparr>t_review = 1000, t_schedule = 1001, t_save = 1002\<rparr>"

definition sample_mistake :: mistake where
  "sample_mistake =
     \<lparr>doc_id = 1, user = 7, question = 42, questionSnapshot = ''2 + 2 = ?'', userAnswer = ''5'',
      mistakeReason = [], tags = [''arithmetic''], importance = 3, masteryLevel = 1,
      reviewStatus = Reviewing,
      reviewInfo = \<lparr>reviewCount = 2, lastReviewDate = Some 500, nextReviewDate = ValidDate 900,
                    reviewIntervals = [], consecutiveCorrect = 2\<rparr>,
      errorStats = \<lparr>totalAttempts = 3, correctAttempts = 2, errorRate = 33\<rparr>,
      source = Exam, examRecord = None, updatedAt = 500,
      metadata = \<lparr>isArchived = False, archiveDate = None, isPublic = False, viewCount = 0\<rparr>\<rparr>"

definition fresh_mistake :: mistake where
  "fresh_mistake =
     sample_mistake\<lparr>reviewInfo := (reviewInfo sample_mistake)\<lparr>consecutiveCorrect := 0\<rparr>\<rparr>"

definition mastered_unarchived :: mistake where
  "mastered_unarchived =
     fresh_mistake\<lparr>masteryLevel := 4, reviewStatus := Mastered\<rparr>"

definition nearly_mastered :: mistake where
  "nearly_mastered = fresh_mistake\<lparr>masteryLevel := 4\<rparr>"

definition mastered_unarchived_after :: mistake where
  "mastered_unarchived_after =
     mastered_unarchived
       \<lparr>masteryLevel := 5,
        reviewInfo := \<lparr>reviewCount = 5, lastReviewDate = Some 1000,
                       nextReviewDate = ValidDate (1001 + 4 * 86400000),
                       reviewIntervals = [], consecutiveCorrect = 0\<rparr>,
        errorStats := \<lparr>totalAttempts = 6, correctAttempts = 5, errorRate = 17\<rparr>,
        updatedAt := 1002\<rparr>"

definition pending_mistake :: mistake where
  "pending_mistake =
     sample_mistake\<lparr>doc_id := 2, question := 43,
        reviewInfo := (reviewInfo sample_mistake)\<lparr>nextReviewDate := ValidDate 5000\<rparr>\<rparr>"


definition sample_exam :: exam_record where
  "sample_exam =
     \<lparr>config = \<lparr>totalQuestions = 2, passingScore = 60\<rparr>,
      result = \<lparr>score = 85, grade = Fail, correctCount = 1, accuracy = 0, isPassed = False\<rparr>,
      questions = [\<lparr>q_type = Single, q_isCorrect = True, q_timeSpent = 12\<rparr>,
                   \<lparr>q_type = Judge, q_isCorrect = False, q_timeSpent = 0\<rparr>],
      sharing = \<lparr>sharedPublicly = False, shareCode = None\<rparr>,
      analysis = \<lparr>typePerformance = (\<lambda>ty. \<lparr>tp_correct = 0, tp_total = 0, tp_rate = 0\<rparr>),
                  timeAnalysis = None\<rparr>\<rparr>"

definition empty_app :: app where
  "empty_app =
     \<lparr>currentUser = Some \<lparr>account_id = JStr ''u1'', username = ''lin''\<rparr>,
      publicQuestionBank = Some [], personalQuestionBank = Some [], mistakeBank = Some [],
      studyStats = Some \<lparr>st_totalQuestions = 0, st_correctAnswers = 0, st_totalStudyTime = 0,
                          st_examRecords = Some []\<rparr>,
      syncStatus = ''unknown'', lastSyncTime = None\<rparr>"

definition item_a1 :: json where
  "item_a1 = JObj [(''id'', JStr ''a1''), (''type'', JStr ''single'')]"

definition item_p1 :: json where
  "item_p1 = JObj [(''id'', JStr ''p1''), (''type'', JStr ''judge'')]"

definition item_m1 :: json where
  "item_m1 = JObj [(''id'', JNum 17), (''questionId'', JStr ''a1'')]"

definition sync_doc :: sync_data where
  "sync_doc = \<lparr>sd_publicQuestions = Some [item_a1], sd_personalQuestions = Some [item_p1],
               sd_mistakeBank = Some [item_m1]\<rparr>"

definition doc_without_dataTypes :: json where
  "doc_without_dataTypes =
     JObj [(''version'', JStr ''1.0.0''), (''deviceId'', JStr ''device_1''),
           (''exportTime'', JStr ''2024-01-01T00:00:00.000Z''),
           (''publicQuestions'', JArr [item_a1])]"

definition doc_with_empty_dataTypes :: json where
  "doc_with_empty_dataTypes =
     JObj [(''version'', JStr ''1.0.0''), (''deviceId'', JStr ''device_1''),
           (''exportTime'', JStr ''2024-01-01T00:00:00.000Z''),
           (''dataTypes'', JArr []),
           (''data'', JObj [(''publicQuestions'', JArr [item_a1])])]"

definition doc_with_null_dataTypes :: json where
  "doc_with_null_dataTypes =
     JObj [(''version'', JStr ''1.0.0''), (''deviceId'', JStr ''device_1''),
           (''exportTime'', JStr ''2024-01-01T00:00:00.000Z''),
           (''dataTypes'', JNull),
           (''publicQuestions'', JArr [item_a1])]"

definition doc_without_deviceId :: json where
  "doc_without_deviceId =
     JObj [(''version'', JStr ''1.0.0''),
           (''exportTime'', JStr ''2024-01-01T00:00:00.000Z''),
           (''dataTypes'', JArr [JStr ''publicQuestions'']),
           (''publicQuestions'', JArr [item_a1]),
           (''data'', JObj [(''publicQuestions'', JArr [item_a1])])]"

section \<open>Properties of the review scheduler\<close>

subsection \<open>What each step of a save and of a review changes\<close>

text \<open>Some percentages, computed on doubles as the code computes them.\<close>

lemma percent_samples:
  "percent 1 4 = 25" "percent 1 6 = 17" "percent 2 4 = 50" "percent 23 40 = 57"
  by code_simp+

lemma compute_errorRate_sel [simp]:
  "doc_id (compute_errorRate m) = doc_id m"
  "user (compute_errorRate m) = user m"
  "question (compute_errorRate m) = question m"
  "userAnswer (compute_errorRate m) = userAnswer m"
  "tags (compute_errorRate m) = tags m"
  "masteryLevel (compute_errorRate m) = masteryLevel m"
  "reviewStatus (compute_errorRate m) = reviewStatus m"
  "reviewInfo (compute_errorRate m) = reviewInfo m"
  "metadata (compute_errorRate m) = metadata m"
  "totalAttempts (errorStats (compute_errorRate m)) = totalAttempts (errorStats m)"
  by (simp_all add: compute_errorRate_def)

lemma promote_on_streak_sel [simp]:
  "doc_id (promote_on_streak m) = doc_id m"
  "user (promote_on_streak m) = user m"
  "question (promote_on_streak m) = question m"
  "userAnswer (promote_on_streak m) = userAnswer m"
  "tags (promote_on_streak m) = tags m"
  "reviewStatus (promote_on_streak m) = reviewStatus m"
  "errorStats (promote_on_streak m) = errorStats m"
  "metadata (promote_on_streak m) = metadata m"
  "nextReviewDate (reviewInfo (promote_on_streak m)) = nextReviewDate (reviewInfo m)"
  by (simp_all add: promote_on_streak_def)

lemma promote_on_streak_streak:
  "consecutiveCorrect (reviewInfo (promote_on_streak m)) =
     (if consecutiveCorrect (reviewInfo m) \<ge> 3 then 0 else consecutiveCorrect (reviewInfo m))"
  by (simp add: promote_on_streak_def)

lemma promote_on_streak_mastery:
  "masteryLevel (promote_on_streak m) =
     (if consecutiveCorrect (reviewInfo m) \<ge> 3 then min 5 (masteryLevel m + 1) else masteryLevel m)"
  by (simp add: promote_on_streak_def)

lemma mark_mastered_sel [simp]:
  "doc_id (mark_mastered now m) = doc_id m"
  "user (mark_mastered now m) = user m"
  "question (mark_mastered now m) = question m"
  "userAnswer (mark_mastered now m) = userAnswer m"
  "tags (mark_mastered now m) = tags m"
  "masteryLevel (mark_mastered now m) = masteryLevel m"
  "reviewInfo (mark_mastered now m) = reviewInfo m"
  "errorStats (mark_mastered now m) = errorStats m"
  by (simp_all add: mark_mastered_def)

lemma mark_mastered_status:
  "reviewStatus (mark_mastered now m) = (if masteryLevel m \<ge> 5 then Mastered else reviewStatus m)"
  by (simp add: mark_mastered_def)

lemma mark_mastered_archived:
  "isArchived (metadata (mark_mastered now m)) =
     (isArchived (metadata m) \<or> (masteryLevel m \<ge> 5 \<and> reviewStatus m \<noteq> Mastered))"
  by (auto simp add: mark_mastered_def)

lemma pre_save_sel [simp]:
  "doc_id (pre_save now m) = doc_id m"
  "user (pre_save now m) = user m"
  "question (pre_save now m) = question m"
  "userAnswer (pre_save now m) = userAnswer m"
  "tags (pre_save now m) = tags m"
  "totalAttempts (errorStats (pre_save now m)) = totalAttempts (errorStats m)"
  "nextReviewDate (reviewInfo (pre_save now m)) = nextReviewDate (reviewInfo m)"
  by (simp_all add: pre_save_def)

lemma pre_save_streak:
  "consecutiveCorrect (reviewInfo (pre_save now m)) =
     (if consecutiveCorrect (reviewInfo m) \<ge> 3 then 0 else consecutiveCorrect (reviewInfo m))"
  by (simp add: pre_save_def promote_on_streak_streak)

lemma pre_save_mastery:
  "masteryLevel (pre_save now m) =
     (if consecutiveCorrect (reviewInfo m) \<ge> 3 then min 5 (masteryLevel m + 1) else masteryLevel m)"
  by (simp add: pre_save_def promote_on_streak_mastery)

lemma pre_save_status:
  "reviewStatus (pre_save now m) =
     (if masteryLevel (pre_save now m) \<ge> 5 then Mastered else reviewStatus m)"
  by (simp add: pre_save_def mark_mastered_status)

lemma pre_save_archived:
  "isArchived (metadata (pre_save now m)) =
     (isArchived (metadata m) \<or> (masteryLevel (pre_save now m) \<ge> 5 \<and> reviewStatus m \<noteq> Mastered))"
  by (simp add: pre_save_def mark_mastered_archived)

lemma schedule_next_sel [simp]:
  "doc_id (schedule_next now m) = doc_id m"
  "user (schedule_next now m) = user m"
  "question (schedule_next now m) = question m"
  "userAnswer (schedule_next now m) = userAnswer m"
  "tags (schedule_next now m) = tags m"
  "masteryLevel (schedule_next now m) = masteryLevel m"
  "reviewStatus (schedule_next now m) = reviewStatus m"
  "errorStats (schedule_next now m) = errorStats m"
  "metadata (schedule_next now m) = metadata m"
  "consecutiveCorrect (reviewInfo (schedule_next now m)) = consecutiveCorrect (reviewInfo m)"
  by (simp_all add: schedule_next_def Let_def)

lemma length_intervals: "length intervals = 8"
  by (simp add: intervals_def)

lemma intervals_at_inrange:
  "0 \<le> i \<Longrightarrow> intervals_at (min i 7) = Some (intervals ! nat (min i 7))"
  unfolding intervals_at_def length_intervals by simp

lemma schedule_next_date:
  "1 \<le> consecutiveCorrect (reviewInfo m) \<Longrightarrow>
   nextReviewDate (reviewInfo (schedule_next now m)) =
     ValidDate (addDays now (intervals ! nat (min (consecutiveCorrect (reviewInfo m) - 1) 7)))"
  using intervals_at_inrange [of "consecutiveCorrect (reviewInfo m) - 1"]
  by (simp add: schedule_next_def Let_def length_intervals)

lemma review_correct_sel [simp]:
  "doc_id (review_correct now m) = doc_id m"
  "user (review_correct now m) = user m"
  "question (review_correct now m) = question m"
  "userAnswer (review_correct now m) = userAnswer m"
  "tags (review_correct now m) = tags m"
  "reviewStatus (review_correct now m) = reviewStatus m"
  "metadata (review_correct now m) = metadata m"
  "totalAttempts (errorStats (review_correct now m)) = totalAttempts (errorStats m)"
  by (simp_all add: review_correct_def)

lemma review_correct_streak:
  "consecutiveCorrect (reviewInfo (review_correct now m)) =
     (if consecutiveCorrect (reviewInfo m) + 1 \<ge> 3 then 0 else consecutiveCorrect (reviewInfo m) + 1)"
  by (simp add: review_correct_def promote_on_streak_streak)

lemma review_correct_mastery:
  "masteryLevel (review_correct now m) =
     (if consecutiveCorrect (reviewInfo m) + 1 \<ge> 3 then min 5 (masteryLevel m + 1) else masteryLevel m)"
  by (simp add: review_correct_def promote_on_streak_mastery)

lemma review_correct_date:
  "0 \<le> consecutiveCorrect (reviewInfo m) \<Longrightarrow>
   nextReviewDate (reviewInfo (review_correct now m)) =
     ValidDate (addDays now (intervals ! nat (min (consecutiveCorrect (reviewInfo m) + 1 - 1) 7)))"
  by (simp add: review_correct_def schedule_next_date)

lemma review_incorrect_sel [simp]:
  "doc_id (review_incorrect now m) = doc_id m"
  "user (review_incorrect now m) = user m"
  "question (review_incorrect now m) = question m"
  "userAnswer (review_incorrect now m) = userAnswer m"
  "tags (review_incorrect now m) = tags m"
  "reviewStatus (review_incorrect now m) = reviewStatus m"
  "metadata (review_incorrect now m) = metadata m"
  "errorStats (review_incorrect now m) = errorStats m"
  "consecutiveCorrect (reviewInfo (review_incorrect now m)) = 0"
  "nextReviewDate (reviewInfo (review_incorrect now m)) = ValidDate now"
  "masteryLevel (review_incorrect now m) = max 1 (masteryLevel m - 1)"
  by (simp_all add: review_incorrect_def)

lemma review_update_sel [simp]:
  "doc_id (review_update clk b m) = doc_id m"
  "user (review_update clk b m) = user m"
  "question (review_update clk b m) = question m"
  "userAnswer (review_update clk b m) = userAnswer m"
  "tags (review_update clk b m) = tags m"
  "reviewStatus (review_update clk b m) = reviewStatus m"
  "metadata (review_update clk b m) = metadata m"
  by (simp_all add: review_update_def Let_def)

lemma review_update_correct:
  "consecutiveCorrect (reviewInfo (review_update clk True m)) =
     (if consecutiveCorrect (reviewInfo m) + 1 \<ge> 3 then 0 else consecutiveCorrect (reviewInfo m) + 1)"
  "masteryLevel (review_update clk True m) =
     (if consecutiveCorrect (reviewInfo m) + 1 \<ge> 3 then min 5 (masteryLevel m + 1) else masteryLevel m)"
  by (simp_all add: review_update_def Let_def review_correct_streak review_correct_mastery)

lemma review_update_correct_date:
  "0 \<le> consecutiveCorrect (reviewInfo m) \<Longrightarrow>
   nextReviewDate (reviewInfo (review_update clk True m)) =
     ValidDate (addDays (t_schedule clk)
                  (intervals ! nat (min (consecutiveCorrect (reviewInfo m) + 1 - 1) 7)))"
  by (simp add: review_update_def Let_def review_correct_date)

lemma review_update_incorrect:
  "consecutiveCorrect (reviewInfo (review_update clk False m)) = 0"
  "nextReviewDate (reviewInfo (review_update clk False m)) = ValidDate (t_schedule clk)"
  "masteryLevel (review_update clk False m) = max 1 (masteryLevel m - 1)"
  by (simp_all add: review_update_def Let_def)

lemma reviewed_sel [simp]:
  "doc_id (reviewed clk b m) = doc_id m"
  "user (reviewed clk b m) = user m"
  "question (reviewed clk b m) = question m"
  by (simp_all add: reviewed_def)

lemma reviewed_correct_streak:
  "consecutiveCorrect (reviewInfo (reviewed clk True m)) =
     (if consecutiveCorrect (reviewInfo m) + 1 \<ge> 3 then 0 else consecutiveCorrect (reviewInfo m) + 1)"
  by (simp add: reviewed_def pre_save_streak review_update_correct)

lemma reviewed_correct_mastery:
  "masteryLevel (reviewed clk True m) =
     (if consecutiveCorrect (reviewInfo m) + 1 \<ge> 3 then min 5 (masteryLevel m + 1) else masteryLevel m)"
  by (simp add: reviewed_def pre_save_mastery review_update_correct)

lemma reviewed_correct_date:
  "0 \<le> consecutiveCorrect (reviewInfo m) \<Longrightarrow>
   nextReviewDate (reviewInfo (reviewed clk True m)) =
     ValidDate (addDays (t_schedule clk)
                  (intervals ! nat (min (consecutiveCorrect (reviewInfo m) + 1 - 1) 7)))"
  by (simp add: reviewed_def review_update_correct_date)

lemma reviewed_incorrect:
  "consecutiveCorrect (reviewInfo (reviewed clk False m)) = 0"
  "nextReviewDate (reviewInfo (reviewed clk False m)) = ValidDate (t_schedule clk)"
  "masteryLevel (reviewed clk False m) = max 1 (masteryLevel m - 1)"
  by (simp_all add: reviewed_def pre_save_streak pre_save_mastery review_update_incorrect)

lemma reviewed_status:
  "reviewStatus (reviewed clk b m) =
     (if masteryLevel (reviewed clk b m) \<ge> 5 then Mastered else reviewStatus m)"
  by (simp add: reviewed_def pre_save_status)

lemma reviewed_archived:
  "isArchived (metadata (reviewed clk b m)) =
     (isArchived (metadata m) \<or> (masteryLevel (reviewed clk b m) \<ge> 5 \<and> reviewStatus m \<noteq> Mastered))"
  by (simp add: reviewed_def pre_save_archived)

lemma review_update_date_valid:
  "nextReviewDate (reviewInfo (review_update clk False m)) \<noteq> InvalidDate"
  "0 \<le> consecutiveCorrect (reviewInfo m) \<Longrightarrow>
   nextReviewDate (reviewInfo (review_update clk True m)) \<noteq> InvalidDate"
  by (simp_all add: review_update_incorrect review_update_correct_date)

lemma recordReview_found:
  "find (\<lambda>d. doc_id d = mistakeId \<and> user d = userId) coll = Some m \<Longrightarrow>
   nextReviewDate (reviewInfo (review_update clk isCorrect m)) \<noteq> InvalidDate \<Longrightarrow>
   recordReview clk coll mistakeId userId isCorrect =
     Inr (reviewed clk isCorrect m,
          map (\<lambda>x. if doc_id x = doc_id m then reviewed clk isCorrect m else x) coll)"
  unfolding recordReview_def save_def reviewed_def Let_def by simp

text \<open>A negative streak indexes the table below its first entry: the date is invalid and
  the save is refused.\<close>

lemma intervals_at_negative: "i < 0 \<Longrightarrow> intervals_at i = None"
  by (simp add: intervals_at_def)

lemma recordReview_negative_streak:
  assumes "find (\<lambda>d. doc_id d = mistakeId \<and> user d = userId) coll = Some m"
    and "consecutiveCorrect (reviewInfo m) < 0"
  shows "recordReview clk coll mistakeId userId True = Inl ValidationFailed"
proof -
  have "intervals_at (min (consecutiveCorrect (reviewInfo m) + 1 - 1) (int (length intervals) - 1)) = None"
    using assms(2) by (intro intervals_at_negative) simp
  then have "nextReviewDate (reviewInfo (review_update clk True m)) = InvalidDate"
    by (simp add: review_update_def review_correct_def schedule_next_def Let_def)
  with assms(1) show ?thesis by (simp add: recordReview_def)
qed

lemma recordReview_missing:
  "find (\<lambda>d. doc_id d = mistakeId \<and> user d = userId) coll = None \<Longrightarrow>
   recordReview clk coll mistakeId userId isCorrect = Inl MistakeNotFound"
  by (simp add: recordReview_def)

subsection \<open>One review\<close>

text \<open>
  Claim C1. A correct review of a record that is found, whose streak counter is not
  negative, adds one to \<open>reviewInfo.consecutiveCorrect\<close> and sets
  \<open>reviewInfo.nextReviewDate\<close> to the clock reading plus \<open>d\<close> days, where \<open>d\<close> is the entry
  of the table \<open>[1,2,4,7,15,30,60,90]\<close> at index \<open>min (consecutiveCorrect - 1) 7\<close> of the
  counter after the increment. The counter that is saved is the incremented one, or 0
  when the increment reached 3.
\<close>

theorem recordReview_correct_schedule:
  assumes "find (\<lambda>d. doc_id d = mistakeId \<and> user d = userId) coll = Some m"
    and "0 \<le> consecutiveCorrect (reviewInfo m)"
  shows "\<exists>m' coll'. recordReview clk coll mistakeId userId True = Inr (m', coll')
           \<and> nextReviewDate (reviewInfo m') =
               ValidDate (addDays (t_schedule clk)
                 (intervals ! nat (min ((consecutiveCorrect (reviewInfo m) + 1) - 1) 7)))
           \<and> consecutiveCorrect (reviewInfo m') =
               (if consecutiveCorrect (reviewInfo m) + 1 \<ge> 3 then 0
                else consecutiveCorrect (reviewInfo m) + 1)"
  using assms
  by (simp add: recordReview_found review_update_date_valid reviewed_correct_date
        reviewed_correct_streak)

text \<open>
  Claim C4. A wrong review of a record that is found sets the streak counter to 0, the next
  review date to the clock reading, and the mastery level to one less, but not below 1.
\<close>

theorem recordReview_incorrect_resets:
  assumes "find (\<lambda>d. doc_id d = mistakeId \<and> user d = userId) coll = Some m"
  shows "\<exists>m' coll'. recordReview clk coll mistakeId userId False = Inr (m', coll')
           \<and> consecutiveCorrect (reviewInfo m') = 0
           \<and> nextReviewDate (reviewInfo m') = ValidDate (t_schedule clk)
           \<and> masteryLevel m' = max 1 (masteryLevel m - 1)"
  using assms by (simp add: recordReview_found review_update_date_valid reviewed_incorrect)


text \<open>C1 on the sample record: its streak of 2 becomes 3, so the delay is the entry at index 2.\<close>

theorem recordReview_correct_schedule_witness:
  "find (\<lambda>d. doc_id d = 1 \<and> user d = 7) [sample_mistake] = Some sample_mistake
   \<and> 0 \<le> consecutiveCorrect (reviewInfo sample_mistake)
   \<and> (\<exists>m' coll'. recordReview sample_clock [sample_mistake] 1 7 True = Inr (m', coll')
         \<and> nextReviewDate (reviewInfo m') = ValidDate (1001 + 4 * 86400000)
         \<and> consecutiveCorrect (reviewInfo m') = 0)"
  using recordReview_correct_schedule [of 1 7 "[sample_mistake]" sample_mistake sample_clock]
  by (simp add: sample_mistake_def sample_clock_def intervals_def addDays_def)

text \<open>C4 on the sample record, whose mastery level is already 1.\<close>

theorem recordReview_incorrect_resets_witness:
  "find (\<lambda>d. doc_id d = 1 \<and> user d = 7) [sample_mistake] = Some sample_mistake
   \<and> (\<exists>m' coll'. recordReview sample_clock [sample_mistake] 1 7 False = Inr (m', coll')
         \<and> consecutiveCorrect (reviewInfo m') = 0
         \<and> nextReviewDate (reviewInfo m') = ValidDate 1001
         \<and> masteryLevel m' = 1)"
  using recordReview_incorrect_resets [of 1 7 "[sample_mistake]" sample_mistake sample_clock]
  by (simp add: sample_mistake_def sample_clock_def)

text \<open>
  Claim C3, as stated, on the sample record (mastery level 1, streak 2): the review that
  makes the streak 3 schedules the next review 4 days ahead, not 1 day ahead. The index
  into the table is taken from the streak before it is reset.
\<close>

theorem recordReview_third_correct_counterexample:
  "masteryLevel sample_mistake = 1 \<and> consecutiveCorrect (reviewInfo sample_mistake) = 2
   \<and> recordReview sample_clock [sample_mistake] 1 7 True =
       Inr (sample_mistake
              \<lparr>masteryLevel := 2,
               reviewInfo := \<lparr>reviewCount = 3, lastReviewDate = Some 1000,
                              nextReviewDate = ValidDate (1001 + 4 * 86400000),
                              reviewIntervals = [], consecutiveCorrect = 0\<rparr>,
               errorStats := \<lparr>totalAttempts = 4, correctAttempts = 3, errorRate = 25\<rparr>,
               updatedAt := 1002\<rparr>,
            [sample_mistake
              \<lparr>masteryLevel := 2,
               reviewInfo := \<lparr>reviewCount = 3, lastReviewDate = Some 1000,
                              nextReviewDate = ValidDate (1001 + 4 * 86400000),
                              reviewIntervals = [], consecutiveCorrect = 0\<rparr>,
               errorStats := \<lparr>totalAttempts = 4, correctAttempts = 3, errorRate = 25\<rparr>,
               updatedAt := 1002\<rparr>])
   \<and> ValidDate (1001 + 4 * 86400000) \<noteq> ValidDate (addDays (t_schedule sample_clock) 1)"
  by (simp add: recordReview_def save_def review_update_def review_correct_def schedule_next_def
        promote_on_streak_def pre_save_def mark_mastered_def compute_errorRate_def
        percent_samples
        intervals_at_def intervals_def addDays_def sample_mistake_def sample_clock_def Let_def)

text \<open>
  Claim C3, amended. For a record with mastery level 1 and streak 2, one more correct review
  gives mastery level 2 and streak 0, and the next review date is the clock reading plus
  4 days, the entry of the table at index 2.
\<close>

theorem recordReview_third_correct:
  assumes "find (\<lambda>d. doc_id d = mistakeId \<and> user d = userId) coll = Some m"
    and "masteryLevel m = 1" and "consecutiveCorrect (reviewInfo m) = 2"
  shows "\<exists>m' coll'. recordReview clk coll mistakeId userId True = Inr (m', coll')
           \<and> masteryLevel m' = 2
           \<and> consecutiveCorrect (reviewInfo m') = 0
           \<and> nextReviewDate (reviewInfo m') = ValidDate (addDays (t_schedule clk) 4)
           \<and> intervals_at 2 = Some 4"
  using assms
  by (simp add: recordReview_found review_update_date_valid reviewed_correct_date
        reviewed_correct_streak reviewed_correct_mastery intervals_def intervals_at_def)

text \<open>The amended C3 on the sample record.\<close>

theorem recordReview_third_correct_witness:
  "find (\<lambda>d. doc_id d = 1 \<and> user d = 7) [sample_mistake] = Some sample_mistake
   \<and> masteryLevel sample_mistake = 1 \<and> consecutiveCorrect (reviewInfo sample_mistake) = 2
   \<and> (\<exists>m' coll'. recordReview sample_clock [sample_mistake] 1 7 True = Inr (m', coll')
         \<and> masteryLevel m' = 2
         \<and> consecutiveCorrect (reviewInfo m') = 0
         \<and> nextReviewDate (reviewInfo m') = ValidDate (addDays (t_schedule sample_clock) 4)
         \<and> intervals_at 2 = Some 4)"
proof -
  have found: "find (\<lambda>d. doc_id d = 1 \<and> user d = 7) [sample_mistake] = Some sample_mistake"
    by (simp add: sample_mistake_def)
  have level: "masteryLevel sample_mistake = 1"
    and streak: "consecutiveCorrect (reviewInfo sample_mistake) = 2"
    by (simp_all add: sample_mistake_def)
  from recordReview_third_correct [OF found level streak, of sample_clock] found level streak
  show ?thesis by blast
qed

subsection \<open>Several correct reviews in a row\<close>

lemma find_replace:
  assumes "find (\<lambda>d. doc_id d = mistakeId \<and> user d = userId) coll = Some m"
    and "doc_id m' = doc_id m" and "user m' = user m"
  shows "find (\<lambda>d. doc_id d = mistakeId \<and> user d = userId)
           (map (\<lambda>x. if doc_id x = doc_id m then m' else x) coll) = Some m'"
  using assms
proof (induction coll)
  case Nil
  then show ?case by simp
next
  case (Cons x xs)
  then show ?case by (auto split: if_splits)
qed

lemma reviewed_all_Nil [simp]: "reviewed_all [] m = m"
  by (simp add: reviewed_all_def)

lemma reviewed_all_Cons [simp]: "reviewed_all (clk # clks) m = reviewed_all clks (reviewed clk True m)"
  by (simp add: reviewed_all_def)

lemma reviewed_all_snoc: "reviewed_all (clks @ [clk]) m = reviewed clk True (reviewed_all clks m)"
  by (simp add: reviewed_all_def)

lemma recordReviews_found:
  "find (\<lambda>d. doc_id d = mistakeId \<and> user d = userId) coll = Some m \<Longrightarrow>
   0 \<le> consecutiveCorrect (reviewInfo m) \<Longrightarrow>
   \<exists>coll'. recordReviews clks coll mistakeId userId = Inr coll'
     \<and> find (\<lambda>d. doc_id d = mistakeId \<and> user d = userId) coll' = Some (reviewed_all clks m)"
proof (induction clks arbitrary: coll m)
  case Nil
  then show ?case by simp
next
  case (Cons clk clks)
  let ?coll1 = "map (\<lambda>x. if doc_id x = doc_id m then reviewed clk True m else x) coll"
  have step: "recordReview clk coll mistakeId userId True = Inr (reviewed clk True m, ?coll1)"
    using Cons.prems by (simp add: recordReview_found review_update_date_valid)
  have found: "find (\<lambda>d. doc_id d = mistakeId \<and> user d = userId) ?coll1 = Some (reviewed clk True m)"
    using Cons.prems(1) by (intro find_replace) simp_all
  have streak: "0 \<le> consecutiveCorrect (reviewInfo (reviewed clk True m))"
    using Cons.prems(2) by (simp add: reviewed_correct_streak)
  from Cons.IH [OF found streak] step show ?case by simp
qed

text \<open>Three correct reviews in a row promote exactly once.\<close>

lemma three_reviews:
  assumes "0 \<le> consecutiveCorrect (reviewInfo m)"
  shows "masteryLevel (reviewed c3 True (reviewed c2 True (reviewed c1 True m))) = min 5 (masteryLevel m + 1)"
    and "0 \<le> consecutiveCorrect (reviewInfo (reviewed c3 True (reviewed c2 True (reviewed c1 True m))))"
    and "consecutiveCorrect (reviewInfo m) = 0 \<Longrightarrow>
         consecutiveCorrect (reviewInfo (reviewed c3 True (reviewed c2 True (reviewed c1 True m)))) = 0"
  using assms by (simp_all add: reviewed_correct_streak reviewed_correct_mastery)

lemma reviewed_all_mastery:
  assumes "length clks = 3 * k" and "0 \<le> consecutiveCorrect (reviewInfo m)"
    and "masteryLevel m \<le> 5"
  shows "masteryLevel (reviewed_all clks m) = min 5 (masteryLevel m + int k)
         \<and> 0 \<le> consecutiveCorrect (reviewInfo (reviewed_all clks m))
         \<and> (consecutiveCorrect (reviewInfo m) = 0 \<longrightarrow>
              consecutiveCorrect (reviewInfo (reviewed_all clks m)) = 0)"
  using assms
proof (induction k arbitrary: clks m)
  case 0
  then show ?case by simp
next
  case (Suc k)
  from Suc.prems(1) obtain c1 c2 c3 rest where
    clks: "clks = c1 # c2 # c3 # rest" and rest: "length rest = 3 * k"
    by (cases clks; cases "tl clks"; cases "tl (tl clks)") auto
  let ?m3 = "reviewed c3 True (reviewed c2 True (reviewed c1 True m))"
  note three = three_reviews [OF Suc.prems(2), of c3 c2 c1]
  have "masteryLevel ?m3 \<le> 5"
    by (simp add: three(1))
  from Suc.IH [OF rest three(2) this]
  have IH: "masteryLevel (reviewed_all rest ?m3) = min 5 (masteryLevel ?m3 + int k)"
    "0 \<le> consecutiveCorrect (reviewInfo (reviewed_all rest ?m3))"
    "consecutiveCorrect (reviewInfo ?m3) = 0 \<longrightarrow>
       consecutiveCorrect (reviewInfo (reviewed_all rest ?m3)) = 0"
    by simp_all
  have "masteryLevel (reviewed_all clks m) = min 5 (masteryLevel m + int (Suc k))"
    using IH(1) three(1) by (simp add: clks)
  moreover have "0 \<le> consecutiveCorrect (reviewInfo (reviewed_all clks m))"
    using IH(2) by (simp add: clks)
  moreover have "consecutiveCorrect (reviewInfo m) = 0 \<longrightarrow>
       consecutiveCorrect (reviewInfo (reviewed_all clks m)) = 0"
    using IH(3) three(3) by (simp add: clks)
  ultimately show ?case by blast
qed

lemma reviewed_keeps_archived_if_mastered:
  "archived_if_mastered m \<Longrightarrow> archived_if_mastered (reviewed clk b m)"
  by (auto simp add: archived_if_mastered_def reviewed_status reviewed_archived split: if_splits)

lemma reviewed_mastered_archived:
  "archived_if_mastered m \<Longrightarrow> 5 \<le> masteryLevel (reviewed clk b m) \<Longrightarrow>
   isArchived (metadata (reviewed clk b m)) \<and> reviewStatus (reviewed clk b m) = Mastered"
  by (auto simp add: archived_if_mastered_def reviewed_status reviewed_archived)

lemma reviewed_all_keeps_archived_if_mastered:
  "archived_if_mastered m \<Longrightarrow> archived_if_mastered (reviewed_all clks m)"
  by (induction clks arbitrary: m) (simp_all add: reviewed_keeps_archived_if_mastered)

lemma reviewed_all_mastered_archived:
  assumes "archived_if_mastered m" and "clks \<noteq> []" and "5 \<le> masteryLevel (reviewed_all clks m)"
  shows "isArchived (metadata (reviewed_all clks m)) \<and> reviewStatus (reviewed_all clks m) = Mastered"
proof -
  from assms(2) obtain front clk where clks: "clks = front @ [clk]"
    by (cases clks rule: rev_cases) auto
  have "archived_if_mastered (reviewed_all front m)"
    using assms(1) by (rule reviewed_all_keeps_archived_if_mastered)
  from reviewed_mastered_archived [OF this, of clk True] assms(3)
  show ?thesis by (simp add: clks reviewed_all_snoc)
qed

text \<open>
  Claim C2, amended. Take a record that is found, with a mastery level of at most 5, a streak
  counter that is not negative, and that is not marked mastered without being archived.
  After \<open>3 * k\<close> correct reviews in a row its mastery level is \<open>min (m + k) 5\<close>, and a
  streak that started at 0 is 0 again. After every one of these reviews, a mastery level
  of 5 comes with \<open>metadata.isArchived = true\<close> and \<open>reviewStatus = 'mastered'\<close>.
\<close>

theorem recordReviews_mastery:
  assumes found: "find (\<lambda>d. doc_id d = mistakeId \<and> user d = userId) coll = Some m"
    and range: "masteryLevel m \<le> 5"
    and streak: "0 \<le> consecutiveCorrect (reviewInfo m)"
    and consistent: "reviewStatus m = Mastered \<longrightarrow> isArchived (metadata m)"
    and len: "length clks = 3 * k"
  shows "(\<exists>coll' m'. recordReviews clks coll mistakeId userId = Inr coll'
           \<and> find (\<lambda>d. doc_id d = mistakeId \<and> user d = userId) coll' = Some m'
           \<and> masteryLevel m' = min (masteryLevel m + int k) 5
           \<and> (consecutiveCorrect (reviewInfo m) = 0 \<longrightarrow> consecutiveCorrect (reviewInfo m') = 0))
       \<and> (\<forall>j. 0 < j \<and> j \<le> length clks \<longrightarrow>
           (\<exists>collj mj. recordReviews (take j clks) coll mistakeId userId = Inr collj
              \<and> find (\<lambda>d. doc_id d = mistakeId \<and> user d = userId) collj = Some mj
              \<and> (5 \<le> masteryLevel mj \<longrightarrow>
                    isArchived (metadata mj) \<and> reviewStatus mj = Mastered)))"
proof (intro conjI allI impI)
  from recordReviews_found [OF found streak, of clks] reviewed_all_mastery [OF len streak range]
  show "\<exists>coll' m'. recordReviews clks coll mistakeId userId = Inr coll'
           \<and> find (\<lambda>d. doc_id d = mistakeId \<and> user d = userId) coll' = Some m'
           \<and> masteryLevel m' = min (masteryLevel m + int k) 5
           \<and> (consecutiveCorrect (reviewInfo m) = 0 \<longrightarrow> consecutiveCorrect (reviewInfo m') = 0)"
    by (auto simp add: min.commute)
next
  fix j assume j: "0 < j \<and> j \<le> length clks"
  then have ne: "take j clks \<noteq> []" by auto
  have inv: "archived_if_mastered m"
    using consistent by (simp add: archived_if_mastered_def)
  from recordReviews_found [OF found streak, of "take j clks"]
    reviewed_all_mastered_archived [OF inv ne]
  show "\<exists>collj mj. recordReviews (take j clks) coll mistakeId userId = Inr collj
            \<and> find (\<lambda>d. doc_id d = mistakeId \<and> user d = userId) collj = Some mj
            \<and> (5 \<le> masteryLevel mj \<longrightarrow>
                  isArchived (metadata mj) \<and> reviewStatus mj = Mastered)"
    by blast
qed

lemmas eval_defs = recordReview_def save_def review_update_def review_correct_def
  review_incorrect_def schedule_next_def
  promote_on_streak_def pre_save_def mark_mastered_def compute_errorRate_def percent_samples
  intervals_at_def intervals_def addDays_def Let_def

text \<open>
  Claim C2, as stated, fails on a record of mastery level 4 that is already marked mastered
  but is not archived: three correct reviews bring it to level 5, and the hook, which
  archives only records not yet marked mastered, leaves it unarchived.
\<close>

theorem recordReviews_mastery_counterexample:
  "masteryLevel mastered_unarchived = 4
   \<and> recordReviews [sample_clock, sample_clock, sample_clock] [mastered_unarchived] 1 7
       = Inr [mastered_unarchived_after]
   \<and> masteryLevel mastered_unarchived_after = 5
   \<and> \<not> isArchived (metadata mastered_unarchived_after)"
  by (simp add: eval_defs mastered_unarchived_after_def mastered_unarchived_def fresh_mistake_def
        sample_mistake_def sample_clock_def)

text \<open>The amended C2 on a record of level 4 and streak 0: three reviews, level 5, archived.\<close>

theorem recordReviews_mastery_witness:
  "find (\<lambda>d. doc_id d = 1 \<and> user d = 7) [nearly_mastered] = Some nearly_mastered
   \<and> masteryLevel nearly_mastered \<le> 5
   \<and> 0 \<le> consecutiveCorrect (reviewInfo nearly_mastered)
   \<and> reviewStatus nearly_mastered = Reviewing
   \<and> length [sample_clock, sample_clock, sample_clock] = 3 * 1
   \<and> (\<exists>coll' m'. recordReviews [sample_clock, sample_clock, sample_clock] [nearly_mastered] 1 7 = Inr coll'
         \<and> find (\<lambda>d. doc_id d = 1 \<and> user d = 7) coll' = Some m'
         \<and> masteryLevel m' = 5
         \<and> consecutiveCorrect (reviewInfo m') = 0
         \<and> isArchived (metadata m') \<and> reviewStatus m' = Mastered)"
proof -
  let ?clks = "[sample_clock, sample_clock, sample_clock]"
  have found: "find (\<lambda>d. doc_id d = 1 \<and> user d = 7) [nearly_mastered] = Some nearly_mastered"
    by (simp add: nearly_mastered_def fresh_mistake_def sample_mistake_def)
  have range: "masteryLevel nearly_mastered \<le> 5"
    and streak: "0 \<le> consecutiveCorrect (reviewInfo nearly_mastered)"
    and consistent: "reviewStatus nearly_mastered = Mastered \<longrightarrow> isArchived (metadata nearly_mastered)"
    and level: "masteryLevel nearly_mastered = 4"
    and zero: "consecutiveCorrect (reviewInfo nearly_mastered) = 0"
    and status: "reviewStatus nearly_mastered = Reviewing"
    by (simp_all add: nearly_mastered_def fresh_mistake_def sample_mistake_def)
  have len: "length ?clks = 3 * 1" by simp
  note main = recordReviews_mastery [OF found range streak consistent len]
  from main obtain coll' m' where
    run: "recordReviews ?clks [nearly_mastered] 1 7 = Inr coll'"
    and got: "find (\<lambda>d. doc_id d = 1 \<and> user d = 7) coll' = Some m'"
    and lvl: "masteryLevel m' = min (masteryLevel nearly_mastered + int 1) 5"
    and cc: "consecutiveCorrect (reviewInfo nearly_mastered) = 0 \<longrightarrow> consecutiveCorrect (reviewInfo m') = 0"
    by blast
  from main have every: "\<forall>j. 0 < j \<and> j \<le> length ?clks \<longrightarrow>
           (\<exists>collj mj. recordReviews (take j ?clks) [nearly_mastered] 1 7 = Inr collj
              \<and> find (\<lambda>d. doc_id d = 1 \<and> user d = 7) collj = Some mj
              \<and> (5 \<le> masteryLevel mj \<longrightarrow>
                    isArchived (metadata mj) \<and> reviewStatus mj = Mastered))"
    by (rule conjunct2)
  have third: "0 < (3::nat) \<and> 3 \<le> length ?clks" by simp
  have whole: "take 3 ?clks = ?clks" by simp
  from every third have "\<exists>collj mj. recordReviews (take 3 ?clks) [nearly_mastered] 1 7 = Inr collj
              \<and> find (\<lambda>d. doc_id d = 1 \<and> user d = 7) collj = Some mj
              \<and> (5 \<le> masteryLevel mj \<longrightarrow>
                    isArchived (metadata mj) \<and> reviewStatus mj = Mastered)"
    by blast
  then obtain collj mj where
    runj: "recordReviews ?clks [nearly_mastered] 1 7 = Inr collj"
    and gotj: "find (\<lambda>d. doc_id d = 1 \<and> user d = 7) collj = Some mj"
    and archj: "5 \<le> masteryLevel mj \<longrightarrow> isArchived (metadata mj) \<and> reviewStatus mj = Mastered"
    unfolding whole by blast
  from run runj have "collj = coll'" by simp
  with got gotj have "mj = m'" by simp
  with archj have arch: "5 \<le> masteryLevel m' \<longrightarrow> isArchived (metadata m') \<and> reviewStatus m' = Mastered"
    by simp
  have five: "masteryLevel m' = 5" using lvl level by simp
  have archived: "isArchived (metadata m') \<and> reviewStatus m' = Mastered"
    using arch five by simp
  have reset: "consecutiveCorrect (reviewInfo m') = 0"
    using cc zero by simp
  from archived reset five run got found range streak status len show ?thesis by blast
qed

section \<open>Properties of createMistakeRecord\<close>

lemma set_insertion_order: "set (insertion_order seen xs) = set seen \<union> set xs"
  by (induction xs arbitrary: seen) auto

lemma distinct_insertion_order: "distinct seen \<Longrightarrow> distinct (insertion_order seen xs)"
  by (induction xs arbitrary: seen) auto

lemma set_spread_set [simp]: "set (spread_set xs) = set xs"
  by (simp add: spread_set_def set_insertion_order)

lemma distinct_spread_set [simp]: "distinct (spread_set xs)"
  by (simp add: spread_set_def distinct_insertion_order)

lemma update_existing_sel [simp]:
  "doc_id (update_existing md e) = doc_id e"
  "user (update_existing md e) = user e"
  "question (update_existing md e) = question e"
  "metadata (update_existing md e) = metadata e"
  "userAnswer (update_existing md e) = md_userAnswer md"
  "totalAttempts (errorStats (update_existing md e)) = totalAttempts (errorStats e) + 1"
  "tags (update_existing md e) =
     spread_set (tags e @ (case md_tags md of Some ts \<Rightarrow> ts | None \<Rightarrow> []))"
  by (simp_all add: update_existing_def)

lemma new_mistake_sel [simp]:
  "doc_id (new_mistake newId now md) = newId"
  "user (new_mistake newId now md) = md_user md"
  "question (new_mistake newId now md) = md_question md"
  by (simp_all add: new_mistake_def)










lemma pre_save_importance [simp]: "importance (pre_save now m) = importance m"
  by (simp add: pre_save_def mark_mastered_def promote_on_streak_def compute_errorRate_def)




section \<open>Properties of getRecommendedForReview\<close>

text \<open>
  The score the pipeline computes has no term for the overdue flag: the fifty points hang
  on a field the stage's input never has.
\<close>

lemma addFields_score:
  "reviewScore (addFields now d) =
     of_int (importance d) * 20 + (6 - of_int (masteryLevel d)) * 15
     + of_int (errorRate (errorStats d)) * (1 / 2)"
  by (simp add: addFields_def stored_isOverdue_def cond_expr_def)

lemma addFields_sel [simp]:
  "doc (addFields now d) = d"
  "isOverdue (addFields now d) = date_lt (nextReviewDate (reviewInfo d)) now"
  by (simp_all add: addFields_def)

lemma getRecommendedForReview_ranked:
  assumes "getRecommendedForReview now coll userId count = Inr rs"
  shows "sorted (map (\<lambda>s. - reviewScore s) rs) \<and> int (length rs) \<le> count
       \<and> (\<forall>s \<in> set rs. user (doc s) = userId \<and> \<not> isArchived (metadata (doc s)))"
proof -
  let ?all = "sort_key (\<lambda>s. - reviewScore s)
                (map (addFields now) (filter (\<lambda>d. user d = userId \<and> \<not> isArchived (metadata d)) coll))"
  from assms have pos: "0 < count" and rs: "rs = take (nat count) ?all"
    by (auto simp: getRecommendedForReview_def Let_def split: if_splits)
  have "sorted (map (\<lambda>s. - reviewScore s) ?all)"
    by (rule sorted_sort_key)
  then have "sorted (take (nat count) (map (\<lambda>s. - reviewScore s) ?all))"
    by (rule sorted_wrt_take)
  then have "sorted (map (\<lambda>s. - reviewScore s) rs)"
    by (simp add: rs take_map)
  moreover have "int (length rs) \<le> count"
    using pos by (simp add: rs)
  moreover have "\<forall>s \<in> set rs. user (doc s) = userId \<and> \<not> isArchived (metadata (doc s))"
  proof
    fix s assume "s \<in> set rs"
    then have "s \<in> set ?all" unfolding rs by (rule in_set_takeD)
    then show "user (doc s) = userId \<and> \<not> isArchived (metadata (doc s))" by auto
  qed
  ultimately show ?thesis by blast
qed

text \<open>
  Claim C7 on two records of one user that differ in their next review date (and in
  \<open>_id\<close> and question): at time 1000 the first is overdue, the second is not, and both get
  the score \<open>3 * 20 + (6 - 1) * 15 + 33 * 0.5 = 151.5\<close>. The claim gives the overdue one
  fifty points more.
\<close>

theorem getRecommendedForReview_overdue_not_scored:
  "getRecommendedForReview 1000 [sample_mistake, pending_mistake] 7 10
     = Inr [\<lparr>doc = sample_mistake, isOverdue = True, reviewScore = 303 / 2\<rparr>,
            \<lparr>doc = pending_mistake, isOverdue = False, reviewScore = 303 / 2\<rparr>]"
  by (simp add: getRecommendedForReview_def addFields_def stored_isOverdue_def cond_expr_def
        date_lt_def pending_mistake_def sample_mistake_def Let_def)

section \<open>Properties of the exam record hook\<close>

lemma assign_grade_sel [simp]:
  "score (result (assign_grade r)) = score (result r)"
  "config (assign_grade r) = config r"
  by (simp_all add: assign_grade_def)

lemma check_passed_sel [simp]:
  "score (result (check_passed r)) = score (result r)"
  "grade (result (check_passed r)) = grade (result r)"
  by (simp_all add: check_passed_def)

lemma compute_accuracy_sel [simp]:
  "score (result (compute_accuracy r)) = score (result r)"
  "grade (result (compute_accuracy r)) = grade (result r)"
  by (simp_all add: compute_accuracy_def)

lemma ensure_shareCode_sel [simp]:
  "result (ensure_shareCode g r) = result r"
  by (simp add: ensure_shareCode_def)

lemma calculateTypePerformance_sel [simp]:
  "result (calculateTypePerformance r) = result r"
  by (simp add: calculateTypePerformance_def)

lemma calculateTimeAnalysis_sel [simp]:
  "result (calculateTimeAnalysis r) = result r"
  by (simp add: calculateTimeAnalysis_def Let_def)

lemma exam_pre_save_grade_eq:
  "grade (result (exam_pre_save g r)) =
     (if score (result r) \<ge> 90 then Excellent
      else if score (result r) \<ge> 80 then Good
      else if score (result r) \<ge> 60 then Pass
      else Fail)"
  by (simp add: exam_pre_save_def) (simp add: assign_grade_def)

text \<open>
  Claim C8. Saving an exam record sets \<open>result.grade\<close> from \<open>result.score\<close> alone: excellent
  from 90, good from 80 to below 90, pass from 60 to below 80, fail below 60; two records
  with the same score get the same grade.
\<close>

theorem exam_pre_save_grade:
  "(90 \<le> score (result r) \<longrightarrow> grade (result (exam_pre_save g r)) = Excellent)
   \<and> (80 \<le> score (result r) \<and> score (result r) < 90 \<longrightarrow> grade (result (exam_pre_save g r)) = Good)
   \<and> (60 \<le> score (result r) \<and> score (result r) < 80 \<longrightarrow> grade (result (exam_pre_save g r)) = Pass)
   \<and> (score (result r) < 60 \<longrightarrow> grade (result (exam_pre_save g r)) = Fail)
   \<and> (score (result r') = score (result r) \<longrightarrow>
        grade (result (exam_pre_save g' r')) = grade (result (exam_pre_save g r)))"
  by (simp add: exam_pre_save_grade_eq)

text \<open>C8 on an exam scored 85, whose grade was the schema's default before the save.\<close>

theorem exam_pre_save_grade_witness:
  "80 \<le> score (result sample_exam) \<and> score (result sample_exam) < 90
   \<and> grade (result sample_exam) = Fail
   \<and> grade (result (exam_pre_save ''Ab3dE6gh'' sample_exam)) = Good"
proof -
  have "80 \<le> score (result sample_exam) \<and> score (result sample_exam) < 90"
    and "grade (result sample_exam) = Fail"
    by (simp_all add: sample_exam_def)
  with exam_pre_save_grade [of sample_exam "''Ab3dE6gh''" sample_exam "''Ab3dE6gh''"]
  show ?thesis by blast
qed

section \<open>Properties of the imports and of the export\<close>

lemmas sync_eval = importSyncData_def mergePublicQuestions_def push_all_def new_by_key_def
  set_has_def same_value_def Let_def

text \<open>
  Claim C5 on \<open>importSyncData\<close> of cross-device-sync.js: importing one document twice
  into an empty state. The public question is merged by \<open>id\<close> and stays single; the
  personal question and the mistake are pushed without a look at the bank and are there
  twice after the second import.
\<close>

theorem importSyncData_twice_duplicates:
  "importSyncData (Some empty_app) sync_doc =
     (None, Some (empty_app\<lparr>publicQuestionBank := Some [item_a1],
                              personalQuestionBank := Some [item_p1],
                              mistakeBank := Some [item_m1]\<rparr>))
   \<and> importSyncData (Some (empty_app\<lparr>publicQuestionBank := Some [item_a1],
                                      personalQuestionBank := Some [item_p1],
                                      mistakeBank := Some [item_m1]\<rparr>)) sync_doc =
     (None, Some (empty_app\<lparr>publicQuestionBank := Some [item_a1],
                              personalQuestionBank := Some [item_p1, item_p1],
                              mistakeBank := Some [item_m1, item_m1]\<rparr>))"
  by (simp add: sync_eval sync_doc_def empty_app_def item_a1_def item_p1_def item_m1_def)

text \<open>
  Claim C6, as stated, fails on a document without \<open>dataTypes\<close>, which
  \<open>SyncManager.importData\<close> accepts and merges, and on a document whose \<open>dataTypes\<close> is the
  empty array, which \<open>importSyncData\<close> of part_001 accepts and merges.
\<close>

theorem import_accepts_counterexample:
  "js_get doc_without_dataTypes ''dataTypes'' = None
   \<and> importData ''2024-01-02T00:00:00.000Z'' (Some empty_app) doc_without_dataTypes =
       (Inr \<lparr>ir_success = True, ir_publicQuestions = Some 1, ir_personalQuestions = None,
             ir_mistakes = None, ir_studyStats = False, ir_errors = []\<rparr>,
        Some (empty_app\<lparr>publicQuestionBank := Some [item_a1], syncStatus := ''synced'',
                         lastSyncTime := Some ''2024-01-02T00:00:00.000Z''\<rparr>))
   \<and> js_get doc_with_empty_dataTypes ''dataTypes'' = Some (JArr [])
   \<and> importSyncData_file (Some empty_app) doc_with_empty_dataTypes =
       (Inr \<lparr>is_publicQuestions = 1, is_personalQuestions = 0, is_mistakes = 0,
             is_studyStats = False\<rparr>,
        Some (empty_app\<lparr>publicQuestionBank := Some [item_a1]\<rparr>))"
  by (simp add: importData_def validateImportData_def import_collection_def removeDuplicates_def
        failed_def imported_count_def truthy_opt_def
        importSyncData_file_def validateSyncData_def merge_step_def mergePublicQuestions_file_def
        merge_bank_def new_by_key_def set_has_def same_value_def Let_def
        doc_without_dataTypes_def doc_with_empty_dataTypes_def empty_app_def item_a1_def)

text \<open>
  \<open>validateImportData\<close> tests \<open>dataTypes\<close> only when it is truthy: a document whose
  \<open>dataTypes\<close> is \<open>null\<close> is accepted and merged like one without the field.
\<close>

lemma importData_null_dataTypes:
  "js_get doc_with_null_dataTypes ''dataTypes'' = Some JNull
   \<and> importData ''2024-01-02T00:00:00.000Z'' (Some empty_app) doc_with_null_dataTypes =
       (Inr \<lparr>ir_success = True, ir_publicQuestions = Some 1, ir_personalQuestions = None,
             ir_mistakes = None, ir_studyStats = False, ir_errors = []\<rparr>,
        Some (empty_app\<lparr>publicQuestionBank := Some [item_a1], syncStatus := ''synced'',
                         lastSyncTime := Some ''2024-01-02T00:00:00.000Z''\<rparr>))"
  by (simp add: importData_def validateImportData_def import_collection_def removeDuplicates_def
        failed_def imported_count_def truthy_opt_def
        new_by_key_def set_has_def same_value_def Let_def
        doc_with_null_dataTypes_def empty_app_def item_a1_def)

lemma js_get_not_object:
  "\<not> truthy idoc \<or> \<not> typeof_object idoc \<Longrightarrow> js_get idoc k = None"
  by (cases idoc) simp_all

lemma validateImportData_iff:
  "validateImportData idoc =
     (truthy_opt (js_get idoc ''version'') \<and> truthy_opt (js_get idoc ''deviceId'')
      \<and> truthy_opt (js_get idoc ''exportTime'')
      \<and> (\<not> truthy_opt (js_get idoc ''dataTypes'')
          \<or> (\<exists>types. js_get idoc ''dataTypes'' = Some (JArr types) \<and> types \<noteq> []
                \<and> set types \<subseteq> {JStr ''publicQuestions'', JStr ''personalQuestions'',
                                 JStr ''mistakeBank'', JStr ''studyStats''})))"
proof (cases "\<not> truthy idoc \<or> \<not> typeof_object idoc")
  case True
  then have "js_get idoc ''version'' = None"
    by (rule js_get_not_object)
  with True show ?thesis
    by (simp add: validateImportData_def truthy_opt_def)
next
  case False
  have types: "(case js_get idoc ''dataTypes'' of
                  Some (JArr types) \<Rightarrow> types \<noteq> [] \<and> list_all (\<lambda>t. t \<in> set validDataTypes) types
                | _ \<Rightarrow> False)
               = (\<exists>types. js_get idoc ''dataTypes'' = Some (JArr types) \<and> types \<noteq> []
                    \<and> set types \<subseteq> {JStr ''publicQuestions'', JStr ''personalQuestions'',
                                     JStr ''mistakeBank'', JStr ''studyStats''})"
    by (auto simp: list_all_iff validDataTypes_def split: option.splits json.splits)
  from False show ?thesis
    unfolding validateImportData_def types by auto
qed

lemma importData_rejects_iff:
  "(importData isoNow window idoc = (Inl InvalidFormat, window)) = (\<not> validateImportData idoc)"
  by (cases window)
     (auto simp: importData_def Let_def split: prod.splits)

lemma validateSyncData_required:
  "\<not> truthy_opt (js_get idoc ''deviceId'') \<or> \<not> truthy_opt (js_get idoc ''exportTime'')
   \<or> \<not> truthy_opt (js_get idoc ''data'') \<Longrightarrow> \<not> validateSyncData idoc"
  by (auto simp: validateSyncData_def)

text \<open>
  Claim C6, amended. \<open>SyncManager.importData\<close> rejects a document as invalid and leaves the
  state as it was exactly when \<open>version\<close>, \<open>deviceId\<close> or \<open>exportTime\<close> is missing or falsy
  (\<open>null\<close>, \<open>false\<close>, 0 or the empty string), or \<open>dataTypes\<close> is truthy and is not a
  non-empty array of the four names. So a document whose \<open>dataTypes\<close> is missing or falsy
  passes the validation. \<open>importSyncData\<close> of part_001 rejects a document and leaves the
  state as it was when \<open>deviceId\<close>, \<open>exportTime\<close> or \<open>data\<close> is missing or falsy.
\<close>

theorem import_rejects_invalid:
  "((importData isoNow window idoc = (Inl InvalidFormat, window)) =
      (\<not> truthy_opt (js_get idoc ''version'') \<or> \<not> truthy_opt (js_get idoc ''deviceId'')
       \<or> \<not> truthy_opt (js_get idoc ''exportTime'')
       \<or> (truthy_opt (js_get idoc ''dataTypes'')
           \<and> \<not> (\<exists>types. js_get idoc ''dataTypes'' = Some (JArr types) \<and> types \<noteq> []
                    \<and> set types \<subseteq> {JStr ''publicQuestions'', JStr ''personalQuestions'',
                                     JStr ''mistakeBank'', JStr ''studyStats''}))))
   \<and> ((\<not> truthy_opt (js_get idoc ''deviceId'') \<or> \<not> truthy_opt (js_get idoc ''exportTime'')
        \<or> \<not> truthy_opt (js_get idoc ''data''))
       \<longrightarrow> (\<exists>e. importSyncData_file window idoc = (Inl e, window)))"
proof (intro conjI impI)
  show "(importData isoNow window idoc = (Inl InvalidFormat, window)) =
      (\<not> truthy_opt (js_get idoc ''version'') \<or> \<not> truthy_opt (js_get idoc ''deviceId'')
       \<or> \<not> truthy_opt (js_get idoc ''exportTime'')
       \<or> (truthy_opt (js_get idoc ''dataTypes'')
           \<and> \<not> (\<exists>types. js_get idoc ''dataTypes'' = Some (JArr types) \<and> types \<noteq> []
                    \<and> set types \<subseteq> {JStr ''publicQuestions'', JStr ''personalQuestions'',
                                     JStr ''mistakeBank'', JStr ''studyStats''})))"
    unfolding importData_rejects_iff validateImportData_iff by blast
next
  assume "\<not> truthy_opt (js_get idoc ''deviceId'') \<or> \<not> truthy_opt (js_get idoc ''exportTime'')
        \<or> \<not> truthy_opt (js_get idoc ''data'')"
  then have "\<not> validateSyncData idoc"
    by (rule validateSyncData_required)
  then show "\<exists>e. importSyncData_file window idoc = (Inl e, window)"
    by (cases window) (simp_all add: importSyncData_file_def)
qed

text \<open>The amended C6 on a document without \<open>deviceId\<close>.\<close>

theorem import_rejects_invalid_witness:
  "\<not> truthy_opt (js_get doc_without_deviceId ''deviceId'')
   \<and> importData ''2024-01-02T00:00:00.000Z'' (Some empty_app) doc_without_deviceId
       = (Inl InvalidFormat, Some empty_app)
   \<and> (\<exists>e. importSyncData_file (Some empty_app) doc_without_deviceId = (Inl e, Some empty_app))"
proof -
  have missing: "\<not> truthy_opt (js_get doc_without_deviceId ''deviceId'')"
    by (simp add: doc_without_deviceId_def truthy_opt_def)
  with import_rejects_invalid
    [of "''2024-01-02T00:00:00.000Z''" "Some empty_app" doc_without_deviceId]
  show ?thesis by blast
qed

subsection \<open>Importing a document a second time\<close>

text \<open>
  Where a merge compares keys, the second merge of the same items finds all of them in the
  bank and adds nothing. \<open>SyncManager.importData\<close> merges all four collections this way.
\<close>

lemma same_value_refl:
  "(case v of None \<Rightarrow> True | Some x \<Rightarrow> is_primitive x) \<Longrightarrow> same_value v v"
  by (simp add: same_value_def split: option.splits)

lemma set_has_append: "set_has (ks @ ks') v = (set_has ks v \<or> set_has ks' v)"
  by (simp add: set_has_def)

lemma set_has_member:
  "v \<in> set ks \<Longrightarrow> (case v of None \<Rightarrow> True | Some x \<Rightarrow> is_primitive x) \<Longrightarrow> set_has ks v"
  by (auto simp: set_has_def list_ex_iff intro: same_value_refl)

lemma new_by_key_again:
  assumes first: "new_by_key key newItems existing = Inr added"
    and prim: "primitive_keys key newItems"
  shows "new_by_key key newItems (existing @ added) = Inr []"
proof -
  from first have clean: "JNull \<notin> set existing" "JNull \<notin> set newItems"
    and added: "added = filter (\<lambda>item. \<not> set_has (map (\<lambda>e. js_get e key) existing) (js_get item key)) newItems"
    by (auto simp: new_by_key_def split: if_splits)
  have "JNull \<notin> set added"
    using clean(2) by (auto simp: added)
  moreover have "set_has (map (\<lambda>e. js_get e key) (existing @ added)) (js_get item key)"
    if "item \<in> set newItems" for item
  proof (cases "set_has (map (\<lambda>e. js_get e key) existing) (js_get item key)")
    case True
    then show ?thesis by (simp add: set_has_append)
  next
    case False
    with that have "item \<in> set added" by (simp add: added)
    then have "js_get item key \<in> set (map (\<lambda>e. js_get e key) added)" by simp
    moreover from prim that have "case js_get item key of None \<Rightarrow> True | Some x \<Rightarrow> is_primitive x"
      by (simp add: primitive_keys_def list_all_iff)
    ultimately have "set_has (map (\<lambda>e. js_get e key) added) (js_get item key)"
      by (rule set_has_member)
    then show ?thesis by (simp add: set_has_append)
  qed
  ultimately show ?thesis
    using clean by (simp add: new_by_key_def filter_empty_conv)
qed

text \<open>A merge adds to the end of the bank and changes or removes nothing that was there.\<close>

lemma new_by_key_sublist:
  "new_by_key key newItems existing = Inr added \<Longrightarrow> set added \<subseteq> set newItems"
  by (auto simp: new_by_key_def split: if_splits)

lemma import_collection_appends:
  assumes "import_collection field (Some b) = (r, bank')"
  shows "\<exists>added. bank' = Some (b @ added)
           \<and> (\<forall>items. field = Some (JArr items) \<longrightarrow> set added \<subseteq> set items)"
  using assms
  by (auto simp: import_collection_def removeDuplicates_def new_by_key_def
      split: option.splits json.splits sum.splits if_splits)

lemma import_collection_again:
  assumes "primitive_keys_field ''id'' field"
  shows "snd (import_collection field (snd (import_collection field bank)))
           = snd (import_collection field bank)
       \<and> (\<forall>n. fst (import_collection field bank) = Some (Inr n) \<longrightarrow>
              fst (import_collection field (snd (import_collection field bank))) = Some (Inr 0))"
proof (cases "\<exists>items. field = Some (JArr items)")
  case False
  then show ?thesis
    by (auto simp: import_collection_def split: option.splits json.splits)
next
  case True
  then obtain items where field: "field = Some (JArr items)" by blast
  with assms have prim: "primitive_keys ''id'' items"
    by (simp add: primitive_keys_field_def)
  show ?thesis
  proof (cases bank)
    case None
    then show ?thesis
      by (simp add: import_collection_def field split: sum.splits)
  next
    case (Some b)
    show ?thesis
    proof (cases "new_by_key ''id'' items b")
      case (Inl e)
      then show ?thesis
        by (simp add: import_collection_def removeDuplicates_def field Some)
    next
      case (Inr added)
      from new_by_key_again [OF Inr prim] Inr show ?thesis
        by (simp add: import_collection_def removeDuplicates_def field Some)
    qed
  qed
qed

lemma merge_bank_again:
  assumes "merge_bank items bank = Inr (n, bank')" and "primitive_keys ''id'' items"
  shows "merge_bank items bank' = Inr (0, bank')"
proof (cases bank)
  case None
  with assms(1) show ?thesis by (simp add: merge_bank_def)
next
  case (Some b)
  with assms(1) obtain added where first: "new_by_key ''id'' items b = Inr added"
    and bank': "bank' = Some (b @ added)"
    by (auto simp: merge_bank_def split: sum.splits)
  from new_by_key_again [OF first assms(2)] show ?thesis
    by (simp add: merge_bank_def bank')
qed

lemma merge_counter_again: "merge_counter v (merge_counter v t) = merge_counter v t"
  by (simp add: merge_counter_def split: option.splits json.splits)

lemma merge_counters_again: "merge_counters src (merge_counters src t) = merge_counters src t"
  by (simp add: merge_counters_def merge_counter_again)

lemma merge_counters_examRecords:
  "merge_counters src (t\<lparr>st_examRecords := r\<rparr>) = (merge_counters src t)\<lparr>st_examRecords := r\<rparr>"
  "st_examRecords (merge_counters src t) = st_examRecords t"
  by (simp_all add: merge_counters_def)

lemma merge_examRecords_again:
  assumes "primitive_keys_field key (js_get src ''examRecords'')"
  shows "snd (merge_examRecords key src (snd (merge_examRecords key src t)))
           = snd (merge_examRecords key src t)"
proof (cases "\<exists>records. js_get src ''examRecords'' = Some (JArr records)")
  case False
  then show ?thesis
    by (auto simp: merge_examRecords_def split: option.splits json.splits)
next
  case True
  then obtain records where src: "js_get src ''examRecords'' = Some (JArr records)" by blast
  with assms have prim: "primitive_keys key records"
    by (simp add: primitive_keys_field_def)
  show ?thesis
  proof (cases "st_examRecords t")
    case None
    then show ?thesis by (simp add: merge_examRecords_def src)
  next
    case (Some existing)
    show ?thesis
    proof (cases "new_by_key key records existing")
      case (Inl e)
      then show ?thesis by (simp add: merge_examRecords_def src Some)
    next
      case (Inr added)
      from new_by_key_again [OF Inr prim] Inr show ?thesis
        by (simp add: merge_examRecords_def src Some)
    qed
  qed
qed

lemma merge_examRecords_counters:
  "merge_counters src (snd (merge_examRecords key src' (merge_counters src t)))
     = snd (merge_examRecords key src' (merge_counters src t))"
  by (auto simp: merge_examRecords_def merge_counters_examRecords merge_counters_again
      split: option.splits json.splits sum.splits)

lemma mergeStudyStats_again:
  assumes "primitive_keys_field ''id'' (js_get src ''examRecords'')"
  shows "snd (mergeStudyStats (snd (mergeStudyStats target src)) src) = snd (mergeStudyStats target src)"
proof (cases target)
  case None
  then show ?thesis by (simp add: mergeStudyStats_def)
next
  case (Some t)
  show ?thesis
  proof (cases "truthy src")
    case False
    then show ?thesis by (simp add: mergeStudyStats_def Some)
  next
    case True
    then show ?thesis
      using merge_examRecords_again [OF assms, of "merge_counters src t"]
      by (simp add: mergeStudyStats_def Some split_beta merge_examRecords_counters)
  qed
qed

lemma importData_state:
  "validateImportData importedDoc \<Longrightarrow>
   snd (importData isoNow (Some a) importedDoc) =
     Some (a\<lparr>publicQuestionBank :=
                snd (import_collection (js_get importedDoc ''publicQuestions'') (publicQuestionBank a)),
              personalQuestionBank :=
                snd (import_collection (js_get importedDoc ''personalQuestions'') (personalQuestionBank a)),
              mistakeBank :=
                snd (import_collection (js_get importedDoc ''mistakeBank'') (mistakeBank a)),
              studyStats :=
                (case js_get importedDoc ''studyStats'' of
                   Some v \<Rightarrow> if truthy v \<and> typeof_object v
                             then snd (mergeStudyStats (studyStats a) v) else studyStats a
                 | None \<Rightarrow> studyStats a),
              syncStatus := ''synced'',
              lastSyncTime := Some isoNow\<rparr>)"
  by (simp add: importData_def Let_def split_beta split: option.splits)

lemma stats_after_again:
  assumes "case field of Some st \<Rightarrow> primitive_keys_field ''id'' (js_get st ''examRecords'') | None \<Rightarrow> True"
  shows "stats_after field (stats_after field stats) = stats_after field stats"
  using assms by (auto simp: stats_after_def mergeStudyStats_again split: option.splits)

lemma importData_banks:
  assumes "validateImportData importedDoc"
  shows "\<exists>a'. snd (importData isoNow (Some a) importedDoc) = Some a'
     \<and> publicQuestionBank a' =
         snd (import_collection (js_get importedDoc ''publicQuestions'') (publicQuestionBank a))
     \<and> personalQuestionBank a' =
         snd (import_collection (js_get importedDoc ''personalQuestions'') (personalQuestionBank a))
     \<and> mistakeBank a' =
         snd (import_collection (js_get importedDoc ''mistakeBank'') (mistakeBank a))
     \<and> studyStats a' = stats_after (js_get importedDoc ''studyStats'') (studyStats a)"
  using assms
  by (simp add: importData_state stats_after_def split: option.splits)

lemma importData_twice:
  assumes prim: "primitive_ids importedDoc"
    and first: "snd (importData iso1 window importedDoc) = w1"
    and second: "snd (importData iso2 w1 importedDoc) = w2"
  shows "map_option publicQuestionBank w2 = map_option publicQuestionBank w1
       \<and> map_option personalQuestionBank w2 = map_option personalQuestionBank w1
       \<and> map_option mistakeBank w2 = map_option mistakeBank w1
       \<and> map_option studyStats w2 = map_option studyStats w1"
proof (cases "validateImportData importedDoc")
  case False
  with first second show ?thesis by (simp add: importData_def)
next
  case valid: True
  show ?thesis
  proof (cases window)
    case None
    with first second show ?thesis by (simp add: importData_def valid)
  next
    case (Some a)
    from prim have
      p1: "primitive_keys_field ''id'' (js_get importedDoc ''publicQuestions'')" and
      p2: "primitive_keys_field ''id'' (js_get importedDoc ''personalQuestions'')" and
      p3: "primitive_keys_field ''id'' (js_get importedDoc ''mistakeBank'')" and
      p4: "case js_get importedDoc ''studyStats'' of
             Some st \<Rightarrow> primitive_keys_field ''id'' (js_get st ''examRecords'') | None \<Rightarrow> True"
      by (simp_all add: primitive_ids_def)
    from importData_banks [OF valid, of iso1 a] first Some obtain a1 where
      w1: "w1 = Some a1"
      and a1: "publicQuestionBank a1 =
                 snd (import_collection (js_get importedDoc ''publicQuestions'') (publicQuestionBank a))"
        "personalQuestionBank a1 =
                 snd (import_collection (js_get importedDoc ''personalQuestions'') (personalQuestionBank a))"
        "mistakeBank a1 =
                 snd (import_collection (js_get importedDoc ''mistakeBank'') (mistakeBank a))"
        "studyStats a1 = stats_after (js_get importedDoc ''studyStats'') (studyStats a)"
      by auto
    from importData_banks [OF valid, of iso2 a1] second w1 obtain a2 where
      w2: "w2 = Some a2"
      and a2: "publicQuestionBank a2 =
                 snd (import_collection (js_get importedDoc ''publicQuestions'') (publicQuestionBank a1))"
        "personalQuestionBank a2 =
                 snd (import_collection (js_get importedDoc ''personalQuestions'') (personalQuestionBank a1))"
        "mistakeBank a2 =
                 snd (import_collection (js_get importedDoc ''mistakeBank'') (mistakeBank a1))"
        "studyStats a2 = stats_after (js_get importedDoc ''studyStats'') (studyStats a1)"
      by auto
    have "publicQuestionBank a2 = publicQuestionBank a1"
      using import_collection_again [OF p1, of "publicQuestionBank a"] by (simp add: a1 a2)
    moreover have "personalQuestionBank a2 = personalQuestionBank a1"
      using import_collection_again [OF p2, of "personalQuestionBank a"] by (simp add: a1 a2)
    moreover have "mistakeBank a2 = mistakeBank a1"
      using import_collection_again [OF p3, of "mistakeBank a"] by (simp add: a1 a2)
    moreover have "studyStats a2 = studyStats a1"
      using stats_after_again [OF p4] by (simp add: a1 a2)
    ultimately show ?thesis by (simp add: w1 w2)
  qed
qed

subsection \<open>The export of an empty state\<close>




end
